theory Spec2Isabelle
  imports Complex_Main
begin

section \<open>Temperature exporter: sensor discovery and merge engine\<close>

text \<open>
  A shallow embedding of \<^verbatim>\<open>cmd/temperature-exporter/main.go\<close>: the line reader
  \<^verbatim>\<open>readFirstLine\<close>, the three discoverers and \<^verbatim>\<open>collector.Collect\<close>.

  Strings are byte lists. What the Go program gets from its environment is an input of
  the model: the file-system tree, the decoded output of \<^verbatim>\<open>sensors -j\<close>, the
  monotonic clock and the \<^verbatim>\<open>float64\<close> operations (parsing and multiplication), which
  are taken as parameters over an arbitrary value type \<open>'v\<close>. The gauge vector of the
  Prometheus client is modelled with the check it makes on label values, whose failure
  is a panic that nothing in the program recovers.
\<close>

subsection \<open>Strings (package strings)\<close>

definition HasPrefix :: "string \<Rightarrow> string \<Rightarrow> bool" where
  "HasPrefix s p = (take (length p) s = p)"

definition HasSuffix :: "string \<Rightarrow> string \<Rightarrow> bool" where
  "HasSuffix s p = (length p \<le> length s \<and> drop (length s - length p) s = p)"

definition TrimPrefix :: "string \<Rightarrow> string \<Rightarrow> string" where
  "TrimPrefix s p = (if HasPrefix s p then drop (length p) s else s)"

definition TrimSuffix :: "string \<Rightarrow> string \<Rightarrow> string" where
  "TrimSuffix s p = (if HasSuffix s p then take (length s - length p) s else s)"

text \<open>
  \<^verbatim>\<open>strings.TrimSpace\<close> on ASCII content: tab, line feed, vertical tab, form feed,
  carriage return and space. (The sysfs attributes read here are ASCII; the multi-byte
  Unicode spaces Go also trims are not modelled.)
\<close>

definition isSpace :: "char \<Rightarrow> bool" where
  "isSpace c = (c = CHR 0x09 \<or> c = CHR 0x0A \<or> c = CHR 0x0B \<or> c = CHR 0x0C
                \<or> c = CHR 0x0D \<or> c = CHR '' '')"

definition TrimSpace :: "string \<Rightarrow> string" where
  "TrimSpace s = rev (dropWhile isSpace (rev (dropWhile isSpace s)))"

definition isDigit :: "char \<Rightarrow> bool" where
  "isDigit c = (c \<in> set ''0123456789'')"

subsection \<open>The file system as the program sees it\<close>

datatype fserr = ENOENT | EACCES | EIO | EISDIR | ENOTDIR | ErrTooLong | ErrEmptyFile

text \<open>
  A path is the list of its components; \<^verbatim>\<open>filepath.Join(dir, name)\<close> with a single
  entry name appends one component.
\<close>

type_synonym path = "string list"

definition Join :: "path \<Rightarrow> string \<Rightarrow> path" where
  "Join dir name = dir @ [name]"

text \<open>
  What one path answers to \<^verbatim>\<open>os.Open\<close>, a read, \<^verbatim>\<open>os.ReadDir\<close> and \<^verbatim>\<open>os.Stat\<close>:
  \<^item> \<open>Absent e\<close>: every access fails with \<open>e\<close> (no such file, or an unsearchable parent);
  \<^item> \<open>File c\<close>: a readable file with content \<open>c\<close>;
  \<^item> \<open>FileNoRead\<close>: the file exists, opening it is refused;
  \<^item> \<open>FileBadRead\<close>: the file opens, reading it fails (a sysfs attribute of a sensor
    that does not answer);
  \<^item> \<open>Dir es\<close>: a directory with entries \<open>es\<close>, each a name and its \<^verbatim>\<open>IsDir()\<close> flag, in
    the order \<^verbatim>\<open>os.ReadDir\<close> returns them; it opens, reading it as a file fails;
  \<^item> \<open>DirNoList\<close>: a directory that exists and cannot be opened or listed.
\<close>

datatype node =
    Absent fserr
  | File string
  | FileNoRead
  | FileBadRead
  | Dir "(string \<times> bool) list"
  | DirNoList

type_synonym filesys = "path \<Rightarrow> node"

fun osOpen :: "filesys \<Rightarrow> path \<Rightarrow> fserr + node" where
  "osOpen fs p =
     (case fs p of
        Absent e \<Rightarrow> Inl e
      | FileNoRead \<Rightarrow> Inl EACCES
      | DirNoList \<Rightarrow> Inl EACCES
      | n \<Rightarrow> Inr n)"

fun ReadDir :: "filesys \<Rightarrow> path \<Rightarrow> fserr + (string \<times> bool) list" where
  "ReadDir fs p =
     (case fs p of
        Absent e \<Rightarrow> Inl e
      | Dir es \<Rightarrow> Inr es
      | DirNoList \<Rightarrow> Inl EACCES
      | _ \<Rightarrow> Inl ENOTDIR)"

fun Stat :: "filesys \<Rightarrow> path \<Rightarrow> fserr + unit" where
  "Stat fs p = (case fs p of Absent e \<Rightarrow> Inl e | _ \<Rightarrow> Inr ())"

subsection \<open>bufio.Scanner: the first call of Scan with the default line splitter\<close>

definition maxScanTokenSize :: nat where
  "maxScanTokenSize = 65536"

definition newline :: char where
  "newline = CHR 0x0A"

definition dropCR :: "string \<Rightarrow> string" where
  "dropCR l = (if l \<noteq> [] \<and> last l = CHR 0x0D then butlast l else l)"

text \<open>
  The scanner's buffer grows up to \<open>maxScanTokenSize\<close> bytes. A line is returned when its
  newline lies inside the full buffer, or when the unterminated rest of the file is
  shorter than the buffer; a longer line ends the scan with \<open>ErrTooLong\<close>. An empty file
  gives no token and no error (\<open>Inr None\<close>).
\<close>

definition scanFirst :: "string \<Rightarrow> fserr + string option" where
  "scanFirst c =
     (if c = [] then Inr None
      else if newline \<in> set c then
        (let l = takeWhile (\<lambda>x. x \<noteq> newline) c
         in if length l < maxScanTokenSize then Inr (Some (dropCR l)) else Inl ErrTooLong)
      else if length c < maxScanTokenSize then Inr (Some (dropCR c))
      else Inl ErrTooLong)"

subsection \<open>readFirstLine\<close>

definition readFirstLine :: "filesys \<Rightarrow> path \<Rightarrow> fserr + string" where
  "readFirstLine fs p =
     (case osOpen fs p of
        Inl err \<Rightarrow> Inl err
      | Inr f \<Rightarrow>
          (case f of
             File c \<Rightarrow>
               (case scanFirst c of
                  Inr (Some text) \<Rightarrow> Inr (TrimSpace text)
                | Inl err \<Rightarrow> Inl err
                | Inr None \<Rightarrow> Inl ErrEmptyFile)
           | Dir es \<Rightarrow> Inl EISDIR
           | _ \<Rightarrow> Inl EIO))"

subsection \<open>float64, as far as the program uses it\<close>

text \<open>
  The program parses a \<^verbatim>\<open>float64\<close> (\<^verbatim>\<open>strconv.ParseFloat\<close>, \<open>None\<close> for an error),
  multiplies two of them and uses the constant \<^verbatim>\<open>0.001\<close>. These are parameters.
\<close>

record 'v float64 =
  ParseFloat :: "string \<Rightarrow> 'v option"
  fmul :: "'v \<Rightarrow> 'v \<Rightarrow> 'v"
  milli :: 'v

subsection \<open>Hwmon discovery (discoverSensors)\<close>

record 'v sensorReading =
  chip :: string
  name :: string
  label :: string
  path :: path
  factor :: 'v

text \<open>
  The label of \<^verbatim>\<open>temp<idx>_input\<close>, together with the files opened to find it, in
  order (the second component records the reads; the program keeps the first only).
\<close>

definition resolveLabel :: "filesys \<Rightarrow> path \<Rightarrow> string \<Rightarrow> string \<times> path list" where
  "resolveLabel fs chipDir idx =
     (let lp = Join chipDir (''temp'' @ idx @ ''_label'') in
      case readFirstLine fs lp of
        Inr l \<Rightarrow> (l, [lp])
      | Inl _ \<Rightarrow>
          (let tp = Join chipDir (''temp'' @ idx @ ''_type'') in
           case readFirstLine fs tp of
             Inr tname \<Rightarrow> (tname, [lp, tp])
           | Inl _ \<Rightarrow> ([], [lp, tp])))"

text \<open>The index of a selected file name, \<open>None\<close> for a name the loop skips.\<close>

definition tempIndex :: "string \<Rightarrow> string option" where
  "tempIndex fname =
     (if \<not> HasPrefix fname ''temp'' \<or> \<not> HasSuffix fname ''_input'' then None
      else Some (TrimSuffix (TrimPrefix fname ''temp'') ''_input''))"

definition fileSensor ::
  "'v float64 \<Rightarrow> filesys \<Rightarrow> path \<Rightarrow> string \<Rightarrow> string \<Rightarrow> 'v sensorReading list" where
  "fileSensor F fs chipDir chipName fname =
     (case tempIndex fname of
        None \<Rightarrow> []
      | Some idx \<Rightarrow>
          [\<lparr>chip = chipName, name = chipName, label = fst (resolveLabel fs chipDir idx),
            path = Join chipDir fname, factor = milli F\<rparr>])"

definition chipNameOf :: "filesys \<Rightarrow> path \<Rightarrow> string \<Rightarrow> string" where
  "chipNameOf fs chipDir ename =
     (case readFirstLine fs (Join chipDir ''name'') of
        Inr n \<Rightarrow> if n \<noteq> [] then n else ename
      | Inl _ \<Rightarrow> ename)"

definition chipSensors ::
  "'v float64 \<Rightarrow> filesys \<Rightarrow> path \<Rightarrow> string \<times> bool \<Rightarrow> 'v sensorReading list" where
  "chipSensors F fs basePath e =
     (if \<not> snd e then []
      else
        (let chipDir = Join basePath (fst e);
             chipName = chipNameOf fs chipDir (fst e)
         in case ReadDir fs chipDir of
              Inl _ \<Rightarrow> []
            | Inr files \<Rightarrow> concat (map (\<lambda>f. fileSensor F fs chipDir chipName (fst f)) files)))"

definition discoverSensors ::
  "'v float64 \<Rightarrow> filesys \<Rightarrow> path \<Rightarrow> fserr + 'v sensorReading list" where
  "discoverSensors F fs basePath =
     (case ReadDir fs basePath of
        Inl err \<Rightarrow> Inl err
      | Inr entries \<Rightarrow> Inr (concat (map (chipSensors F fs basePath) entries)))"

subsection \<open>Thermal zones (discoverThermalSensors)\<close>

definition zoneSensor ::
  "'v float64 \<Rightarrow> filesys \<Rightarrow> path \<Rightarrow> string \<times> bool \<Rightarrow> 'v sensorReading list" where
  "zoneSensor F fs thermalBase e =
     (if \<not> snd e \<or> \<not> HasPrefix (fst e) ''thermal_zone'' then []
      else
        (let zoneDir = Join thermalBase (fst e);
             ttype = (case readFirstLine fs (Join zoneDir ''type'') of
                        Inr t \<Rightarrow> t | Inl _ \<Rightarrow> []);
             tempPath = Join zoneDir ''temp''
         in case Stat fs tempPath of
              Inr _ \<Rightarrow> [\<lparr>chip = ''thermal'', name = ttype, label = fst e,
                          path = tempPath, factor = milli F\<rparr>]
            | Inl _ \<Rightarrow> []))"

definition discoverThermalSensors ::
  "'v float64 \<Rightarrow> filesys \<Rightarrow> path \<Rightarrow> fserr + 'v sensorReading list" where
  "discoverThermalSensors F fs thermalBase =
     (case ReadDir fs thermalBase of
        Inl err \<Rightarrow> Inl err
      | Inr entries \<Rightarrow> Inr (concat (map (zoneSensor F fs thermalBase) entries)))"

subsection \<open>The lm-sensors backend (discoverSensorsCLI)\<close>

text \<open>
  What \<^verbatim>\<open>json.Unmarshal\<close> stores in an \<^verbatim>\<open>interface{}\<close>: nil, bool, float64, string,
  a slice, or a map. A map is given as the list of its entries in the order the
  \<^verbatim>\<open>range\<close> loop visits them (Go leaves that order open); lookup is \<open>map_of\<close>.
  Since every number is decoded as \<^verbatim>\<open>float64\<close>, the \<^verbatim>\<open>int\<close> and \<^verbatim>\<open>json.Number\<close>
  cases of the type switch are never taken.
\<close>

datatype 'v jvalue =
    JNull
  | JBool bool
  | JNumber 'v
  | JString string
  | JArray "'v jvalue list"
  | JObject "(string \<times> 'v jvalue) list"

datatype clierr = ExecError | SyntaxError | UnmarshalTypeError

record 'v cliReading =
  cli_chip :: string
  cli_name :: string
  cli_label :: string
  cli_value :: 'v

text \<open>The regular expression \<^verbatim>\<open>^temp(\d+)_input$\<close>: the captured digits, if it matches.\<close>

definition matchTempInput :: "string \<Rightarrow> string option" where
  "matchTempInput k =
     (if HasPrefix k ''temp'' \<and> HasSuffix (TrimPrefix k ''temp'') ''_input'' then
        (let idx = TrimSuffix (TrimPrefix k ''temp'') ''_input''
         in if idx \<noteq> [] \<and> list_all isDigit idx then Some idx else None)
      else None)"

definition fieldReading ::
  "string \<Rightarrow> string \<Rightarrow> (string \<times> 'v jvalue) list \<Rightarrow> string \<times> 'v jvalue \<Rightarrow> 'v cliReading list" where
  "fieldReading chipk section sm kv =
     (case matchTempInput (fst kv) of
        None \<Rightarrow> []
      | Some idx \<Rightarrow>
          (case snd kv of
             JNumber f \<Rightarrow>
               [\<lparr>cli_chip = chipk, cli_name = section,
                 cli_label = (case map_of sm (''temp'' @ idx @ ''_label'') of
                                Some (JString s) \<Rightarrow> s
                              | _ \<Rightarrow> []),
                 cli_value = f\<rparr>]
           | _ \<Rightarrow> []))"

definition sectionReadings :: "string \<Rightarrow> string \<times> 'v jvalue \<Rightarrow> 'v cliReading list" where
  "sectionReadings chipk sv =
     (case snd sv of
        JObject sm \<Rightarrow> concat (map (fieldReading chipk (fst sv) sm) sm)
      | _ \<Rightarrow> [])"

definition chipReadings :: "string \<times> 'v jvalue \<Rightarrow> 'v cliReading list" where
  "chipReadings cv =
     (case snd cv of
        JObject m \<Rightarrow> concat (map (sectionReadings (fst cv)) m)
      | _ \<Rightarrow> [])"

text \<open>
  The argument is the outcome of running \<^verbatim>\<open>sensors -j\<close> within the timeout and decoding
  its output: \<open>Inl\<close> when the command fails or its output is not JSON. Decoding into a
  map accepts an object and \<^verbatim>\<open>null\<close> (a nil map) and rejects every other value.
\<close>

definition discoverSensorsCLI :: "clierr + 'v jvalue \<Rightarrow> clierr + 'v cliReading list" where
  "discoverSensorsCLI out =
     (case out of
        Inl err \<Rightarrow> Inl err
      | Inr (JObject rootMap) \<Rightarrow> Inr (concat (map chipReadings rootMap))
      | Inr JNull \<Rightarrow> Inr []
      | Inr _ \<Rightarrow> Inl UnmarshalTypeError)"

subsection \<open>Label values (utf8.ValidString)\<close>

text \<open>
  \<^verbatim>\<open>GaugeVec.WithLabelValues\<close> validates its arguments and panics when one of them is
  not valid UTF-8. \<open>validBytes\<close> is Go's \<^verbatim>\<open>utf8.ValidString\<close> on the byte values: ASCII,
  or a lead byte followed by the continuation bytes its range admits (no overlong form,
  no surrogate, nothing above U+10FFFF).
\<close>

definition isCont :: "nat \<Rightarrow> bool" where
  "isCont b = (0x80 \<le> b \<and> b \<le> 0xBF)"

text \<open>The range of the second byte after the lead byte \<open>x\<close> of a 3- or 4-byte form.\<close>

definition secondLo :: "nat \<Rightarrow> nat" where
  "secondLo x = (if x = 0xE0 then 0xA0 else if x = 0xF0 then 0x90 else 0x80)"

definition secondHi :: "nat \<Rightarrow> nat" where
  "secondHi x = (if x = 0xED then 0x9F else if x = 0xF4 then 0x8F else 0xBF)"

fun validBytes :: "nat list \<Rightarrow> bool" where
  "validBytes [] = True"
| "validBytes (x # bs) =
     (if x < 0x80 then validBytes bs
      else if 0xC2 \<le> x \<and> x \<le> 0xDF then
        (case bs of
           b1 # r \<Rightarrow> isCont b1 \<and> validBytes r
         | _ \<Rightarrow> False)
      else if 0xE0 \<le> x \<and> x \<le> 0xEF then
        (case bs of
           b1 # b2 # r \<Rightarrow> secondLo x \<le> b1 \<and> b1 \<le> secondHi x \<and> isCont b2 \<and> validBytes r
         | _ \<Rightarrow> False)
      else if 0xF0 \<le> x \<and> x \<le> 0xF4 then
        (case bs of
           b1 # b2 # b3 # r \<Rightarrow>
             secondLo x \<le> b1 \<and> b1 \<le> secondHi x \<and> isCont b2 \<and> isCont b3 \<and> validBytes r
         | _ \<Rightarrow> False)
      else False)"

definition validUTF8 :: "string \<Rightarrow> bool" where
  "validUTF8 s = validBytes (map of_char s)"

subsection \<open>The collector and one scrape (collector.Collect)\<close>

text \<open>
  The gauge vector is a map from the label values (chip, sensor, label) to the value last
  set: \<^verbatim>\<open>Reset\<close> empties it, \<^verbatim>\<open>WithLabelValues(...).Set(v)\<close> stores \<open>v\<close> under the key or
  panics on label values that are not valid UTF-8, and \<^verbatim>\<open>Collect\<close> publishes what it
  holds.
\<close>

type_synonym labels = "string \<times> string \<times> string"

definition validLabelValues :: "labels \<Rightarrow> bool" where
  "validLabelValues k = (case k of (c, n, l) \<Rightarrow> validUTF8 c \<and> validUTF8 n \<and> validUTF8 l)"

record collector =
  basePath :: path
  thermalPath :: path
  enableHwmon :: bool
  enableThermal :: bool
  enableSensorsCli :: bool

datatype logEntry =
    DiscoverSensorsError fserr
  | DiscoverThermalSensorsError fserr
  | DiscoverSensorsCLIError clierr

text \<open>
  The mutable state: the collector's two metrics, the package variable
  \<^verbatim>\<open>sensorsCliWarned\<close> and the lines written by \<^verbatim>\<open>log.Printf\<close>, oldest first.
  The scrape duration is kept in nanoseconds, as \<^verbatim>\<open>time.Since\<close> returns it.
  \<open>panicked\<close> holds the label values \<^verbatim>\<open>WithLabelValues\<close> refused, once it has: nothing
  recovers the panic, the scrape publishes nothing and the process ends there.
\<close>

record 'v state =
  sensors :: "labels \<rightharpoonup> 'v"
  scrapeTime :: int
  sensorsCliWarned :: bool
  logged :: "logEntry list"
  panicked :: "labels option"

text \<open>
  What one scrape reads from outside: the file system, the outcome of the
  \<^verbatim>\<open>sensors -j\<close> run, and the monotonic clock at \<^verbatim>\<open>time.Now()\<close> and at
  \<^verbatim>\<open>time.Since(start)\<close>, in nanoseconds.
\<close>

record 'v scrapeEnv =
  fsys :: filesys
  sensorsOut :: "clierr + 'v jvalue"
  clockStart :: int
  clockEnd :: int

definition sensorKey :: "'v sensorReading \<Rightarrow> labels" where
  "sensorKey s = (chip s, name s, label s)"

definition cliKey :: "'v cliReading \<Rightarrow> labels" where
  "cliKey r = (cli_chip r, cli_name r, cli_label r)"

text \<open>The value read for one descriptor, \<open>None\<close> where the loop body hits \<^verbatim>\<open>continue\<close>.\<close>

definition readTemp :: "'v float64 \<Rightarrow> filesys \<Rightarrow> 'v sensorReading \<Rightarrow> 'v option" where
  "readTemp F fs s =
     (case readFirstLine fs (path s) of
        Inl _ \<Rightarrow> None
      | Inr raw \<Rightarrow>
          (case ParseFloat F (TrimSpace raw) of
             None \<Rightarrow> None
           | Some v \<Rightarrow> Some (fmul F v (factor s))))"

text \<open>
  The two loops over the gauge vector. Each returns the label values at which
  \<^verbatim>\<open>WithLabelValues\<close> panicked, if it did, and the gauge vector as it then is.
\<close>

fun setSensors ::
  "'v float64 \<Rightarrow> filesys \<Rightarrow> 'v sensorReading list \<Rightarrow> (labels \<rightharpoonup> 'v)
     \<Rightarrow> labels option \<times> (labels \<rightharpoonup> 'v)" where
  "setSensors F fs [] g = (None, g)"
| "setSensors F fs (s # ss) g =
     (case readTemp F fs s of
        None \<Rightarrow> setSensors F fs ss g
      | Some tempC \<Rightarrow>
          if validLabelValues (sensorKey s)
          then setSensors F fs ss (g(sensorKey s \<mapsto> tempC))
          else (Some (sensorKey s), g))"

fun setReadings ::
  "'v cliReading list \<Rightarrow> (labels \<rightharpoonup> 'v) \<Rightarrow> labels option \<times> (labels \<rightharpoonup> 'v)" where
  "setReadings [] g = (None, g)"
| "setReadings (r # rs) g =
     (if validLabelValues (cliKey r)
      then setReadings rs (g(cliKey r \<mapsto> cli_value r))
      else (Some (cliKey r), g))"

text \<open>The descriptors of the enabled sysfs backends and the lines their failures log.\<close>

definition hwmonPart ::
  "'v float64 \<Rightarrow> collector \<Rightarrow> filesys \<Rightarrow> 'v sensorReading list \<times> logEntry list" where
  "hwmonPart F c fs =
     (if enableHwmon c then
        (case discoverSensors F fs (basePath c) of
           Inr s \<Rightarrow> (s, [])
         | Inl err \<Rightarrow> ([], [DiscoverSensorsError err]))
      else ([], []))"

definition thermalPart ::
  "'v float64 \<Rightarrow> collector \<Rightarrow> filesys \<Rightarrow> 'v sensorReading list \<times> logEntry list" where
  "thermalPart F c fs =
     (if enableThermal c then
        (case discoverThermalSensors F fs (thermalPath c) of
           Inr s \<Rightarrow> (s, [])
         | Inl err \<Rightarrow> ([], [DiscoverThermalSensorsError err]))
      else ([], []))"

text \<open>
  The \<^verbatim>\<open>sensors -j\<close> step: the outcome of its loop over the gauge vector, the lines it
  logs and the new value of \<^verbatim>\<open>sensorsCliWarned\<close>.
\<close>

definition cliPart ::
  "collector \<Rightarrow> clierr + 'v jvalue \<Rightarrow> bool \<Rightarrow> (labels \<rightharpoonup> 'v)
     \<Rightarrow> (labels option \<times> (labels \<rightharpoonup> 'v)) \<times> logEntry list \<times> bool" where
  "cliPart c out warned g =
     (if enableSensorsCli c then
        (case discoverSensorsCLI out of
           Inr readings \<Rightarrow> (setReadings readings g, [], warned)
         | Inl err \<Rightarrow>
             (if \<not> warned then ((None, g), [DiscoverSensorsCLIError err], True)
              else ((None, g), [], warned)))
      else ((None, g), [], warned))"

text \<open>
  One scrape. A panic in either loop leaves the state as it is at that point: the lines
  logged so far, the gauge vector half filled, no duration set.
\<close>

definition Collect :: "'v float64 \<Rightarrow> collector \<Rightarrow> 'v scrapeEnv \<Rightarrow> 'v state \<Rightarrow> 'v state" where
  "Collect F c e st =
     (let start = clockStart e;
          (s1, log1) = hwmonPart F c (fsys e);
          (s2, log2) = thermalPart F c (fsys e);
          sensorList = s1 @ s2;
          g0 = Map.empty;
          (p1, g1) = setSensors F (fsys e) sensorList g0
      in case p1 of
           Some k \<Rightarrow>
             st\<lparr>sensors := g1, logged := logged st @ log1 @ log2, panicked := Some k\<rparr>
         | None \<Rightarrow>
             (let ((p2, g2), log3, warned) = cliPart c (sensorsOut e) (sensorsCliWarned st) g1
              in case p2 of
                   Some k \<Rightarrow>
                     st\<lparr>sensors := g2, sensorsCliWarned := warned,
                        logged := logged st @ log1 @ log2 @ log3, panicked := Some k\<rparr>
                 | None \<Rightarrow>
                     st\<lparr>sensors := g2,
                        scrapeTime := clockEnd e - start,
                        sensorsCliWarned := warned,
                        logged := logged st @ log1 @ log2 @ log3\<rparr>))"

text \<open>
  The process: one collector, scraped once per request, in order, for as long as it
  lives.
\<close>

fun scrapes :: "'v float64 \<Rightarrow> collector \<Rightarrow> 'v scrapeEnv list \<Rightarrow> 'v state \<Rightarrow> 'v state" where
  "scrapes F c [] st = st"
| "scrapes F c (e # es) st =
     (if panicked st \<noteq> None then st else scrapes F c es (Collect F c e st))"

definition initState :: "'v state" where
  "initState = \<lparr>sensors = Map.empty, scrapeTime = 0, sensorsCliWarned = False, logged = [],
                panicked = None\<rparr>"

definition isCliError :: "logEntry \<Rightarrow> bool" where
  "isCliError l = (case l of DiscoverSensorsCLIError _ \<Rightarrow> True | _ \<Rightarrow> False)"

text \<open>
  Names for what one scrape works on: the descriptors it collects (hwmon first, then
  thermal zones) and the lm-sensors readings it merges (none when the backend is disabled
  or fails).
\<close>

definition collected :: "'v float64 \<Rightarrow> collector \<Rightarrow> filesys \<Rightarrow> 'v sensorReading list" where
  "collected F c fs = fst (hwmonPart F c fs) @ fst (thermalPart F c fs)"

definition cliReadings :: "collector \<Rightarrow> clierr + 'v jvalue \<Rightarrow> 'v cliReading list" where
  "cliReadings c out =
     (if enableSensorsCli c then
        (case discoverSensorsCLI out of Inr readings \<Rightarrow> readings | Inl _ \<Rightarrow> [])
      else [])"

text \<open>The keys a scrape observes: descriptors whose value was read, and lm-sensors readings.\<close>

definition observedKeys :: "'v float64 \<Rightarrow> collector \<Rightarrow> 'v scrapeEnv \<Rightarrow> labels set" where
  "observedKeys F c e =
     sensorKey ` {s \<in> set (collected F c (fsys e)). readTemp F (fsys e) s \<noteq> None}
     \<union> cliKey ` set (cliReadings c (sensorsOut e))"

subsection \<open>Example inputs\<close>

text \<open>
  An instance of the \<^verbatim>\<open>float64\<close> operations on the reals, exact on the values the
  examples use.
\<close>

definition exF :: "real float64" where
  "exF = \<lparr>ParseFloat = map_of [(''39625'', 39625), (''41000'', 41000), (''52000'', 52000)],
          fmul = (*), milli = 1 / 1000\<rparr>"

text \<open>A file whose first line has 65536 bytes before its newline.\<close>

definition exLongLine :: string where
  "exLongLine = replicate 65536 CHR ''a'' @ ''\<newline>''"

definition exLongFs :: filesys where
  "exLongFs p = (if p = [''temp1_input''] then File exLongLine else Absent ENOENT)"

text \<open>A label file whose first line is a single space.\<close>

definition exBlankFs :: filesys where
  "exBlankFs p = (if p = [''temp1_label''] then File '' \<newline>Tctl\<newline>'' else Absent ENOENT)"
text \<open>
  A hwmon tree with one chip, \<^verbatim>\<open>k10temp\<close>: two inputs without label or type file, a
  third with a label whose value cannot be read; and a thermal tree with one zone.
\<close>

definition exFs :: filesys where
  "exFs p =
     (case map_of
        [([''hwmon''], Dir [(''README'', False), (''hwmon0'', True)]),
         ([''hwmon'', ''hwmon0''],
            Dir [(''name'', False), (''temp1_input'', False), (''temp2_input'', False),
                 (''temp3_input'', False), (''temp3_label'', False)]),
         ([''hwmon'', ''hwmon0'', ''name''], File ''k10temp\<newline>''),
         ([''hwmon'', ''hwmon0'', ''temp1_input''], File ''39625\<newline>''),
         ([''hwmon'', ''hwmon0'', ''temp2_input''], File ''41000\<newline>''),
         ([''hwmon'', ''hwmon0'', ''temp3_input''], FileBadRead),
         ([''hwmon'', ''hwmon0'', ''temp3_label''], File ''Tctl\<newline>''),
         ([''thermal''], Dir [(''cooling_device0'', True), (''thermal_zone0'', True)]),
         ([''thermal'', ''thermal_zone0''], Dir [(''temp'', False), (''type'', False)]),
         ([''thermal'', ''thermal_zone0'', ''type''], File ''acpitz\<newline>''),
         ([''thermal'', ''thermal_zone0'', ''temp''], File ''52000\<newline>'')] p of
        Some n \<Rightarrow> n
      | None \<Rightarrow> Absent ENOENT)"

definition exC :: collector where
  "exC = \<lparr>basePath = [''hwmon''], thermalPath = [''thermal''],
          enableHwmon = True, enableThermal = True, enableSensorsCli = True\<rparr>"

text \<open>A scrape in which \<^verbatim>\<open>sensors -j\<close> cannot be run, and one in which it answers.\<close>

definition exEnv :: "real scrapeEnv" where
  "exEnv = \<lparr>fsys = exFs, sensorsOut = Inl ExecError, clockStart = 1000, clockEnd = 2500\<rparr>"

definition exEnvCli :: "real scrapeEnv" where
  "exEnvCli =
     \<lparr>fsys = exFs,
      sensorsOut = Inr (JObject [(''k10temp'', JObject [(''k10temp'',
                     JObject [(''temp1_input'', JNumber 45)])])]),
      clockStart = 1000, clockEnd = 2500\<rparr>"

text \<open>A state left by an earlier scrape that saw a sensor now gone.\<close>

definition exStale :: "real state" where
  "exStale = \<lparr>sensors = [(''nvme'', ''nvme'', ''Composite'') \<mapsto> 30], scrapeTime = 7,
              sensorsCliWarned = False, logged = [], panicked = None\<rparr>"

definition exD1 :: "real sensorReading" where
  "exD1 = \<lparr>chip = ''k10temp'', name = ''k10temp'', label = [],
           path = [''hwmon'', ''hwmon0'', ''temp1_input''], factor = 1 / 1000\<rparr>"

definition exD2 :: "real sensorReading" where
  "exD2 = \<lparr>chip = ''k10temp'', name = ''k10temp'', label = [],
           path = [''hwmon'', ''hwmon0'', ''temp2_input''], factor = 1 / 1000\<rparr>"

definition exD3 :: "real sensorReading" where
  "exD3 = \<lparr>chip = ''k10temp'', name = ''k10temp'', label = ''Tctl'',
           path = [''hwmon'', ''hwmon0'', ''temp3_input''], factor = 1 / 1000\<rparr>"

definition exZ0 :: "real sensorReading" where
  "exZ0 = \<lparr>chip = ''thermal'', name = ''acpitz'', label = ''thermal_zone0'',
           path = [''thermal'', ''thermal_zone0'', ''temp''], factor = 1 / 1000\<rparr>"

text \<open>The collector pointed at a hwmon base path that does not exist.\<close>

definition exNoHwmon :: collector where
  "exNoHwmon = exC\<lparr>basePath := [''nohwmon'']\<rparr>"
text \<open>
  The decoded document
  \<^verbatim>\<open>{"coretemp-isa-0000":{"Core 0":{"temp2_input": 39.0, "temp2_label":"Core 0"}}}\<close>,
  with \<open>v\<close> for the \<^verbatim>\<open>float64\<close> that \<^verbatim>\<open>39.0\<close> decodes to, in the two orders in which the
  section's fields can be visited.
\<close>

definition exCoretemp :: "'v \<Rightarrow> 'v jvalue" where
  "exCoretemp v =
     JObject [(''coretemp-isa-0000'',
       JObject [(''Core 0'',
         JObject [(''temp2_input'', JNumber v), (''temp2_label'', JString ''Core 0'')])])]"

definition exCoretempRev :: "'v \<Rightarrow> 'v jvalue" where
  "exCoretempRev v =
     JObject [(''coretemp-isa-0000'',
       JObject [(''Core 0'',
         JObject [(''temp2_label'', JString ''Core 0''), (''temp2_input'', JNumber v)])])]"

definition exCliOnly :: collector where
  "exCliOnly = \<lparr>basePath = [''hwmon''], thermalPath = [''thermal''],
                enableHwmon = False, enableThermal = False, enableSensorsCli = True\<rparr>"


text \<open>
  A chip directory in which \<^verbatim>\<open>temp3_label\<close> holds a blank line and \<^verbatim>\<open>temp3_type\<close> holds
  \<^verbatim>\<open>Tdie\<close>; input 4 has a type file only, input 5 neither.
\<close>

definition exLabelFs :: filesys where
  "exLabelFs p =
     (case map_of
        [([''hwmon'', ''hwmon0'', ''temp3_label''], File ''\<newline>''),
         ([''hwmon'', ''hwmon0'', ''temp3_type''], File ''Tdie\<newline>''),
         ([''hwmon'', ''hwmon0'', ''temp4_type''], File ''Tdie\<newline>'')] p of
        Some n \<Rightarrow> n
      | None \<Rightarrow> Absent ENOENT)"

text \<open>A chip whose two inputs have different labels, and the descriptors of the two.\<close>

definition exLabelled :: filesys where
  "exLabelled p =
     (case map_of
        [([''hwmon''], Dir [(''hwmon0'', True)]),
         ([''hwmon'', ''hwmon0''],
            Dir [(''name'', False), (''temp1_input'', False), (''temp1_label'', False),
                 (''temp2_input'', False), (''temp2_label'', False)]),
         ([''hwmon'', ''hwmon0'', ''name''], File ''k10temp\<newline>''),
         ([''hwmon'', ''hwmon0'', ''temp1_input''], File ''39625\<newline>''),
         ([''hwmon'', ''hwmon0'', ''temp1_label''], File ''Tctl\<newline>''),
         ([''hwmon'', ''hwmon0'', ''temp2_input''], File ''41000\<newline>''),
         ([''hwmon'', ''hwmon0'', ''temp2_label''], File ''Tdie\<newline>'')] p of
        Some n \<Rightarrow> n
      | None \<Rightarrow> Absent ENOENT)"

definition exEnvLabelled :: "real scrapeEnv" where
  "exEnvLabelled =
     \<lparr>fsys = exLabelled, sensorsOut = Inl ExecError, clockStart = 1000, clockEnd = 2500\<rparr>"

definition exL1 :: "real sensorReading" where
  "exL1 = \<lparr>chip = ''k10temp'', name = ''k10temp'', label = ''Tctl'',
           path = [''hwmon'', ''hwmon0'', ''temp1_input''], factor = 1 / 1000\<rparr>"

definition exL2 :: "real sensorReading" where
  "exL2 = \<lparr>chip = ''k10temp'', name = ''k10temp'', label = ''Tdie'',
           path = [''hwmon'', ''hwmon0'', ''temp2_input''], factor = 1 / 1000\<rparr>"

text \<open>
  A chip whose only input has a label file holding the single byte 0xFF, which is not
  valid UTF-8, and the descriptor discovered for it.
\<close>

definition exBadFs :: filesys where
  "exBadFs p =
     (case map_of
        [([''hwmon''], Dir [(''hwmon0'', True)]),
         ([''hwmon'', ''hwmon0''],
            Dir [(''name'', False), (''temp1_input'', False), (''temp1_label'', False)]),
         ([''hwmon'', ''hwmon0'', ''name''], File ''k10temp\<newline>''),
         ([''hwmon'', ''hwmon0'', ''temp1_input''], File ''39625\<newline>''),
         ([''hwmon'', ''hwmon0'', ''temp1_label''], File [CHR 0xFF, CHR 0x0A])] p of
        Some n \<Rightarrow> n
      | None \<Rightarrow> Absent ENOENT)"

definition exEnvBad :: "real scrapeEnv" where
  "exEnvBad = \<lparr>fsys = exBadFs, sensorsOut = Inl ExecError, clockStart = 1000, clockEnd = 2500\<rparr>"

definition exBad1 :: "real sensorReading" where
  "exBad1 = \<lparr>chip = ''k10temp'', name = ''k10temp'', label = [CHR 0xFF],
             path = [''hwmon'', ''hwmon0'', ''temp1_input''], factor = 1 / 1000\<rparr>"

text \<open>
  A thermal tree whose only zone has a \<^verbatim>\<open>type\<close> file holding the single byte 0xFF; there
  is no hwmon tree.
\<close>

definition exBadZoneFs :: filesys where
  "exBadZoneFs p =
     (case map_of
        [([''thermal''], Dir [(''thermal_zone0'', True)]),
         ([''thermal'', ''thermal_zone0''], Dir [(''temp'', False), (''type'', False)]),
         ([''thermal'', ''thermal_zone0'', ''type''], File [CHR 0xFF, CHR 0x0A]),
         ([''thermal'', ''thermal_zone0'', ''temp''], File ''52000\<newline>'')] p of
        Some n \<Rightarrow> n
      | None \<Rightarrow> Absent ENOENT)"

definition exEnvBadZone :: "real scrapeEnv" where
  "exEnvBadZone =
     \<lparr>fsys = exBadZoneFs, sensorsOut = Inl ExecError, clockStart = 1000, clockEnd = 2500\<rparr>"

definition exBadZ0 :: "real sensorReading" where
  "exBadZ0 = \<lparr>chip = ''thermal'', name = [CHR 0xFF], label = ''thermal_zone0'',
              path = [''thermal'', ''thermal_zone0'', ''temp''], factor = 1 / 1000\<rparr>"

text \<open>
  Scrapes of the example tree in which one lm-sensors section holds two inputs without
  labels, 45 and 46, visited in either order; and the two readings.
\<close>

definition exEnvCliTwo :: "real scrapeEnv" where
  "exEnvCliTwo =
     \<lparr>fsys = exFs,
      sensorsOut = Inr (JObject [(''k10temp'', JObject [(''k10temp'',
                     JObject [(''temp1_input'', JNumber 45), (''temp2_input'', JNumber 46)])])]),
      clockStart = 1000, clockEnd = 2500\<rparr>"

definition exEnvCliTwoRev :: "real scrapeEnv" where
  "exEnvCliTwoRev =
     \<lparr>fsys = exFs,
      sensorsOut = Inr (JObject [(''k10temp'', JObject [(''k10temp'',
                     JObject [(''temp2_input'', JNumber 46), (''temp1_input'', JNumber 45)])])]),
      clockStart = 1000, clockEnd = 2500\<rparr>"

definition exR45 :: "real cliReading" where
  "exR45 = \<lparr>cli_chip = ''k10temp'', cli_name = ''k10temp'', cli_label = [], cli_value = 45\<rparr>"

definition exR46 :: "real cliReading" where
  "exR46 = \<lparr>cli_chip = ''k10temp'', cli_name = ''k10temp'', cli_label = [], cli_value = 46\<rparr>"

section \<open>Properties\<close>

subsection \<open>The gauge vector\<close>

lemma validBytes_ascii: "\<forall>b \<in> set bs. b < 0x80 \<Longrightarrow> validBytes bs"
  by (induction bs) simp_all

lemma setReadings_append:
  "setReadings (xs @ ys) g =
     (case setReadings xs g of
        (None, g') \<Rightarrow> setReadings ys g'
      | (Some k, g') \<Rightarrow> (Some k, g'))"
  by (induction xs arbitrary: g) simp_all

lemma setReadings_dom:
  "fst (setReadings rs g) = None \<Longrightarrow> dom (snd (setReadings rs g)) = dom g \<union> cliKey ` set rs"
  by (induction rs arbitrary: g) (auto split: if_splits)

lemma setReadings_other: "k \<notin> cliKey ` set rs \<Longrightarrow> snd (setReadings rs g) k = g k"
  by (induction rs arbitrary: g) auto

lemma setReadings_last:
  "fst (setReadings rs g) = None \<Longrightarrow> filter (\<lambda>r. cliKey r = k) rs \<noteq> [] \<Longrightarrow>
   snd (setReadings rs g) k = Some (cli_value (last (filter (\<lambda>r. cliKey r = k) rs)))"
proof (induction rs arbitrary: g)
  case Nil
  then show ?case by simp
next
  case (Cons r rs)
  have v: "validLabelValues (cliKey r)"
    using Cons.prems(1) by (simp split: if_splits)
  then have rest: "fst (setReadings rs (g(cliKey r \<mapsto> cli_value r))) = None"
    using Cons.prems(1) by simp
  show ?case
  proof (cases "filter (\<lambda>r. cliKey r = k) rs = []")
    case True
    then have "k \<notin> cliKey ` set rs" by (auto simp: filter_empty_conv)
    with Cons.prems(2) True v show ?thesis
      by (auto simp: setReadings_other split: if_splits)
  next
    case False
    have step: "setReadings (r # rs) g = setReadings rs (g(cliKey r \<mapsto> cli_value r))"
      using v by simp
    have "snd (setReadings rs (g(cliKey r \<mapsto> cli_value r))) k =
        Some (cli_value (last (filter (\<lambda>r. cliKey r = k) rs)))"
      by (rule Cons.IH [OF rest False])
    moreover have "last (filter (\<lambda>r. cliKey r = k) (r # rs)) = last (filter (\<lambda>r. cliKey r = k) rs)"
      using False by simp
    ultimately show ?thesis unfolding step by (simp only:)
  qed
qed

lemma setSensors_append:
  "setSensors F fs (xs @ ys) g =
     (case setSensors F fs xs g of
        (None, g') \<Rightarrow> setSensors F fs ys g'
      | (Some k, g') \<Rightarrow> (Some k, g'))"
  by (induction xs arbitrary: g) (simp_all split: option.splits)

lemma setSensors_dom:
  "fst (setSensors F fs ss g) = None \<Longrightarrow>
   dom (snd (setSensors F fs ss g)) =
     dom g \<union> sensorKey ` {s \<in> set ss. readTemp F fs s \<noteq> None}"
proof (induction ss arbitrary: g)
  case Nil
  then show ?case by simp
next
  case (Cons s ss)
  show ?case
  proof (cases "readTemp F fs s")
    case None
    then show ?thesis using Cons.IH [of g] Cons.prems by auto
  next
    case (Some v)
    have ok: "validLabelValues (sensorKey s)"
      using Cons.prems Some by (simp split: if_splits)
    have step: "setSensors F fs (s # ss) g = setSensors F fs ss (g(sensorKey s \<mapsto> v))"
      using Some ok by simp
    have "fst (setSensors F fs ss (g(sensorKey s \<mapsto> v))) = None"
      using Cons.prems unfolding step .
    then have "dom (snd (setSensors F fs ss (g(sensorKey s \<mapsto> v)))) =
        dom (g(sensorKey s \<mapsto> v)) \<union> sensorKey ` {s \<in> set ss. readTemp F fs s \<noteq> None}"
      by (rule Cons.IH)
    moreover have "dom (g(sensorKey s \<mapsto> v)) \<union> sensorKey ` {s \<in> set ss. readTemp F fs s \<noteq> None}
        = dom g \<union> sensorKey ` {x \<in> set (s # ss). readTemp F fs x \<noteq> None}"
      using Some by auto
    ultimately show ?thesis unfolding step by (simp only:)
  qed
qed

lemma setSensors_other:
  "k \<notin> sensorKey ` {s \<in> set ss. readTemp F fs s \<noteq> None} \<Longrightarrow>
   snd (setSensors F fs ss g) k = g k"
proof (induction ss arbitrary: g)
  case Nil
  then show ?case by simp
next
  case (Cons s ss)
  have rest: "k \<notin> sensorKey ` {s \<in> set ss. readTemp F fs s \<noteq> None}"
    using Cons.prems by auto
  show ?case
  proof (cases "readTemp F fs s")
    case None
    then show ?thesis using Cons.IH [OF rest] by simp
  next
    case (Some v)
    then have "sensorKey s \<noteq> k" using Cons.prems by auto
    then show ?thesis using Some Cons.IH [OF rest] by simp
  qed
qed

text \<open>The scrape, with the pairs taken apart.\<close>

lemma cliPart_gauge: "fst (cliPart c out w g) = setReadings (cliReadings c out) g"
  by (simp add: cliPart_def cliReadings_def split: sum.splits)

lemma cliPart_log:
  "fst (snd (cliPart c out w g)) =
     (if enableSensorsCli c \<and> \<not> w then
        (case discoverSensorsCLI out of
           Inl err \<Rightarrow> [DiscoverSensorsCLIError err]
         | Inr _ \<Rightarrow> [])
      else [])"
  by (simp add: cliPart_def split: sum.splits)

lemma cliPart_warned:
  "snd (snd (cliPart c out w g)) \<longleftrightarrow> w \<or> (enableSensorsCli c \<and> isl (discoverSensorsCLI out))"
  by (simp add: cliPart_def split: sum.splits)

lemma Collect_unfold:
  "Collect F c e st =
     (let r1 = setSensors F (fsys e) (collected F c (fsys e)) Map.empty;
          lg = snd (hwmonPart F c (fsys e)) @ snd (thermalPart F c (fsys e));
          r2 = cliPart c (sensorsOut e) (sensorsCliWarned st) (snd r1)
      in case fst r1 of
           Some k \<Rightarrow> st\<lparr>sensors := snd r1, logged := logged st @ lg, panicked := Some k\<rparr>
         | None \<Rightarrow>
             (case fst (fst r2) of
                Some k \<Rightarrow>
                  st\<lparr>sensors := snd (fst r2), sensorsCliWarned := snd (snd r2),
                     logged := logged st @ lg @ fst (snd r2), panicked := Some k\<rparr>
              | None \<Rightarrow>
                  st\<lparr>sensors := snd (fst r2), scrapeTime := clockEnd e - clockStart e,
                     sensorsCliWarned := snd (snd r2),
                     logged := logged st @ lg @ fst (snd r2)\<rparr>))"
  by (simp add: Collect_def Let_def collected_def case_prod_beta split: option.split)

text \<open>When a scrape completes, and what it then holds.\<close>

lemma Collect_panicked:
  "panicked (Collect F c e st) =
     (case fst (setSensors F (fsys e) (collected F c (fsys e)) Map.empty) of
        Some k \<Rightarrow> Some k
      | None \<Rightarrow>
          (case fst (setReadings (cliReadings c (sensorsOut e))
                      (snd (setSensors F (fsys e) (collected F c (fsys e)) Map.empty))) of
             Some k \<Rightarrow> Some k
           | None \<Rightarrow> panicked st))"
  by (simp add: Collect_unfold Let_def cliPart_gauge split: option.splits)

lemma Collect_completes:
  assumes "panicked (Collect F c e st) = None"
  shows "fst (setSensors F (fsys e) (collected F c (fsys e)) Map.empty) = None"
    and "fst (setReadings (cliReadings c (sensorsOut e))
               (snd (setSensors F (fsys e) (collected F c (fsys e)) Map.empty))) = None"
  using assms unfolding Collect_panicked by (simp_all split: option.splits)

lemma Collect_sensors:
  "panicked (Collect F c e st) = None \<Longrightarrow>
   sensors (Collect F c e st) =
     snd (setReadings (cliReadings c (sensorsOut e))
            (snd (setSensors F (fsys e) (collected F c (fsys e)) Map.empty)))"
  using Collect_completes [of F c e st]
  by (simp add: Collect_unfold Let_def cliPart_gauge)

lemma Collect_dom:
  "panicked (Collect F c e st) = None \<Longrightarrow> dom (sensors (Collect F c e st)) = observedKeys F c e"
  using Collect_completes [of F c e st]
  by (simp add: Collect_sensors observedKeys_def setReadings_dom setSensors_dom)

subsection \<open>The line reader\<close>

lemma scanFirst_error:
  "scanFirst c = Inl e \<longleftrightarrow>
     e = ErrTooLong \<and> c \<noteq> [] \<and> maxScanTokenSize \<le> length (takeWhile (\<lambda>x. x \<noteq> newline) c)"
proof (cases "newline \<in> set c")
  case True
  then show ?thesis by (auto simp: scanFirst_def Let_def)
next
  case False
  then have tw: "takeWhile (\<lambda>x. x \<noteq> newline) c = c"
    by (induction c) auto
  show ?thesis
    unfolding tw using False by (cases "length c < maxScanTokenSize") (auto simp: scanFirst_def)
qed

lemma scanFirst_none: "scanFirst c = Inr None \<longleftrightarrow> c = []"
  by (auto simp: scanFirst_def Let_def)

lemma TrimSpace_blank: "list_all isSpace l \<Longrightarrow> TrimSpace l = []"
proof -
  assume "list_all isSpace l"
  then have d: "dropWhile isSpace l = []"
    by (induction l) simp_all
  show ?thesis unfolding TrimSpace_def d by simp
qed


lemma takeWhile_replicate_line:
  "x \<noteq> newline \<Longrightarrow> takeWhile (\<lambda>x. x \<noteq> newline) (replicate n x @ [newline]) = replicate n x"
  by (induction n) simp_all

text \<open>
  C10, as stated, fails: a file that opens and holds a line of 65536 bytes before its
  newline makes \<^verbatim>\<open>readFirstLine\<close> fail with the scanner's \<open>ErrTooLong\<close>, although it
  could be opened and does contain a line before EOF.
\<close>

theorem C10_counterexample:
  "osOpen exLongFs [''temp1_input''] = Inr (File exLongLine)
   \<and> takeWhile (\<lambda>x. x \<noteq> newline) exLongLine = replicate 65536 CHR ''a''
   \<and> readFirstLine exLongFs [''temp1_input''] = Inl ErrTooLong"
proof -
  have tw: "takeWhile (\<lambda>x. x \<noteq> newline) exLongLine = replicate 65536 CHR ''a''"
    using takeWhile_replicate_line [of "CHR ''a''" 65536]
    by (simp add: exLongLine_def newline_def)
  have "scanFirst exLongLine = Inl ErrTooLong"
    unfolding scanFirst_def tw by (simp add: exLongLine_def newline_def maxScanTokenSize_def)
  then show ?thesis
    using tw by (simp add: exLongFs_def readFirstLine_def)
qed

text \<open>
  C10 (amended): \<^verbatim>\<open>readFirstLine\<close> fails if and only if the file cannot be opened, or reading
  it fails (a read error, a directory, or a first line that does not fit the scanner's
  buffer of \<open>maxScanTokenSize\<close> bytes), or it contains no line before EOF. A file whose
  first line is only whitespace gives the empty string and no error.
\<close>

theorem C10_readFirstLine_fails_iff:
  "((\<exists>err. readFirstLine fs p = Inl err) \<longleftrightarrow>
      (\<exists>err. osOpen fs p = Inl err)
      \<or> fs p = FileBadRead \<or> (\<exists>es. fs p = Dir es)
      \<or> (\<exists>c. fs p = File c \<and> maxScanTokenSize \<le> length (takeWhile (\<lambda>x. x \<noteq> newline) c))
      \<or> fs p = File [])
   \<and> (\<forall>c l. fs p = File c \<and> scanFirst c = Inr (Some l) \<and> list_all isSpace l
         \<longrightarrow> readFirstLine fs p = Inr [])"
proof (intro conjI allI impI)
  show "(\<exists>err. readFirstLine fs p = Inl err) \<longleftrightarrow>
      (\<exists>err. osOpen fs p = Inl err)
      \<or> fs p = FileBadRead \<or> (\<exists>es. fs p = Dir es)
      \<or> (\<exists>c. fs p = File c \<and> maxScanTokenSize \<le> length (takeWhile (\<lambda>x. x \<noteq> newline) c))
      \<or> fs p = File []"
  proof (cases "fs p")
    case (File c)
    show ?thesis
    proof (cases "scanFirst c")
      case (Inl e)
      with File scanFirst_error [of c e] show ?thesis
        by (simp add: readFirstLine_def)
    next
      case (Inr t)
      show ?thesis
      proof (cases t)
        case None
        with Inr File scanFirst_none [of c] show ?thesis
          by (simp add: readFirstLine_def)
      next
        case (Some l)
        have ne: "c \<noteq> []" using Inr Some scanFirst_none [of c] by auto
        have "scanFirst c \<noteq> Inl ErrTooLong" using Inr by simp
        with ne have "\<not> maxScanTokenSize \<le> length (takeWhile (\<lambda>x. x \<noteq> newline) c)"
          using scanFirst_error [of c ErrTooLong] by simp
        with ne
        show ?thesis using Inr Some File
          by (simp add: readFirstLine_def)
      qed
    qed
  qed (simp_all add: readFirstLine_def)
next
  fix c l
  assume "fs p = File c \<and> scanFirst c = Inr (Some l) \<and> list_all isSpace l"
  then show "readFirstLine fs p = Inr []"
    by (simp add: readFirstLine_def TrimSpace_blank)
qed

text \<open>Witness for C10: a label file whose first line is one space.\<close>

theorem C10_readFirstLine_fails_iff_witness:
  "exBlankFs [''temp1_label''] = File '' \<newline>Tctl\<newline>''
   \<and> scanFirst '' \<newline>Tctl\<newline>'' = Inr (Some '' '')
   \<and> list_all isSpace '' ''
   \<and> readFirstLine exBlankFs [''temp1_label''] = Inr []
   \<and> \<not> (\<exists>err. readFirstLine exBlankFs [''temp1_label''] = Inl err)"
proof -
  have a: "exBlankFs [''temp1_label''] = File '' \<newline>Tctl\<newline>''"
    by (simp add: exBlankFs_def)
  have b: "scanFirst '' \<newline>Tctl\<newline>'' = Inr (Some '' '')"
    by (simp add: scanFirst_def newline_def maxScanTokenSize_def dropCR_def)
  have c: "list_all isSpace '' ''" by (simp add: isSpace_def)
  from C10_readFirstLine_fails_iff [of exBlankFs "[''temp1_label'']"] a b c
  have "readFirstLine exBlankFs [''temp1_label''] = Inr []" by blast
  with a b c show ?thesis by simp
qed

subsection \<open>The example tree, evaluated\<close>

lemmas eval_defs =
  discoverSensors_def chipSensors_def chipNameOf_def fileSensor_def tempIndex_def
  resolveLabel_def Join_def HasPrefix_def HasSuffix_def TrimPrefix_def TrimSuffix_def
  discoverThermalSensors_def zoneSensor_def readFirstLine_def scanFirst_def newline_def
  maxScanTokenSize_def dropCR_def TrimSpace_def isSpace_def

lemma ex_hwmon: "discoverSensors exF exFs [''hwmon''] = Inr [exD1, exD2, exD3]"
  by (simp add: eval_defs exFs_def exF_def exD1_def exD2_def exD3_def)

lemma ex_thermal: "discoverThermalSensors exF exFs [''thermal''] = Inr [exZ0]"
  by (simp add: eval_defs exFs_def exF_def exZ0_def)

lemma ex_collected: "collected exF exC exFs = [exD1, exD2, exD3, exZ0]"
  by (simp add: collected_def hwmonPart_def thermalPart_def exC_def ex_hwmon ex_thermal)

lemma ex_readTemp:
  "readTemp exF exFs exD1 = Some (317 / 8)"
  "readTemp exF exFs exD2 = Some 41"
  "readTemp exF exFs exD3 = None"
  "readTemp exF exFs exZ0 = Some 52"
  by (simp_all add: readTemp_def eval_defs exFs_def exF_def exD1_def exD2_def exD3_def exZ0_def)

lemma ex_keys:
  "sensorKey exD1 = (''k10temp'', ''k10temp'', [])"
  "sensorKey exD2 = (''k10temp'', ''k10temp'', [])"
  "sensorKey exD3 = (''k10temp'', ''k10temp'', ''Tctl'')"
  "sensorKey exZ0 = (''thermal'', ''acpitz'', ''thermal_zone0'')"
  by (simp_all add: sensorKey_def exD1_def exD2_def exD3_def exZ0_def)

lemma ex_cli_fail: "cliReadings exC (Inl ExecError) = ([] :: real cliReading list)"
  by (simp add: cliReadings_def discoverSensorsCLI_def)

lemma ex_cli:
  "discoverSensorsCLI (sensorsOut exEnvCli) =
     Inr [\<lparr>cli_chip = ''k10temp'', cli_name = ''k10temp'', cli_label = [], cli_value = 45\<rparr>]"
  by (simp add: exEnvCli_def discoverSensorsCLI_def chipReadings_def sectionReadings_def
        fieldReading_def matchTempInput_def HasPrefix_def HasSuffix_def TrimPrefix_def
        TrimSuffix_def isDigit_def)

lemma ex_valid:
  "validLabelValues (''k10temp'', ''k10temp'', [])"
  "validLabelValues (''k10temp'', ''k10temp'', ''Tctl'')"
  "validLabelValues (''k10temp'', ''k10temp'', ''Tdie'')"
  "validLabelValues (''thermal'', ''acpitz'', ''thermal_zone0'')"
  "validLabelValues (''coretemp-isa-0000'', ''Core 0'', ''Core 0'')"
  "\<not> validLabelValues (''k10temp'', ''k10temp'', [CHR 0xFF])"
  "\<not> validLabelValues (''thermal'', [CHR 0xFF], ''thermal_zone0'')"
  by (simp_all add: validLabelValues_def validUTF8_def)

lemma ex_sensors:
  "setSensors exF exFs [exD1, exD2, exD3, exZ0] Map.empty =
     (None, [(''k10temp'', ''k10temp'', []) \<mapsto> 41,
             (''thermal'', ''acpitz'', ''thermal_zone0'') \<mapsto> 52])"
  by (simp add: ex_readTemp ex_keys ex_valid)

lemma ex_fsys: "fsys exEnv = exFs" "fsys exEnvCli = exFs"
  by (simp_all add: exEnv_def exEnvCli_def)

lemma ex_cliReadings:
  "cliReadings exC (sensorsOut exEnv) = []"
  "cliReadings exC (sensorsOut exEnvCli) =
     [\<lparr>cli_chip = ''k10temp'', cli_name = ''k10temp'', cli_label = [], cli_value = 45\<rparr>]"
proof -
  have en: "enableSensorsCli exC" by (simp add: exC_def)
  show "cliReadings exC (sensorsOut exEnv) = []"
    by (simp add: exEnv_def ex_cli_fail)
  show "cliReadings exC (sensorsOut exEnvCli) =
     [\<lparr>cli_chip = ''k10temp'', cli_name = ''k10temp'', cli_label = [], cli_value = 45\<rparr>]"
    using en by (simp add: cliReadings_def ex_cli)
qed

lemma ex_loop:
  "setSensors exF (fsys exEnv) (collected exF exC (fsys exEnv)) Map.empty =
     (None, [(''k10temp'', ''k10temp'', []) \<mapsto> 41,
             (''thermal'', ''acpitz'', ''thermal_zone0'') \<mapsto> 52])"
  "setSensors exF (fsys exEnvCli) (collected exF exC (fsys exEnvCli)) Map.empty =
     (None, [(''k10temp'', ''k10temp'', []) \<mapsto> 41,
             (''thermal'', ''acpitz'', ''thermal_zone0'') \<mapsto> 52])"
  by (simp_all only: ex_fsys ex_collected ex_sensors)

lemma ex_completes:
  "panicked (Collect exF exC exEnv st) = panicked st"
  "panicked (Collect exF exC exEnvCli st) = panicked st"
  by (simp_all add: Collect_panicked ex_loop ex_cliReadings cliKey_def ex_valid)

lemma ex_published:
  "sensors (Collect exF exC exEnv initState) =
     [(''k10temp'', ''k10temp'', []) \<mapsto> 41,
      (''thermal'', ''acpitz'', ''thermal_zone0'') \<mapsto> 52]"
  "sensors (Collect exF exC exEnvCli initState) =
     [(''k10temp'', ''k10temp'', []) \<mapsto> 45,
      (''thermal'', ''acpitz'', ''thermal_zone0'') \<mapsto> 52]"
proof -
  have a: "panicked (Collect exF exC exEnv initState) = None"
    "panicked (Collect exF exC exEnvCli initState) = None"
    by (simp_all add: ex_completes initState_def)
  show "sensors (Collect exF exC exEnv initState) =
     [(''k10temp'', ''k10temp'', []) \<mapsto> 41,
      (''thermal'', ''acpitz'', ''thermal_zone0'') \<mapsto> 52]"
    by (simp add: Collect_sensors [OF a(1)] ex_loop ex_cliReadings)
  show "sensors (Collect exF exC exEnvCli initState) =
     [(''k10temp'', ''k10temp'', []) \<mapsto> 45,
      (''thermal'', ''acpitz'', ''thermal_zone0'') \<mapsto> 52]"
    by (simp add: Collect_sensors [OF a(2)] ex_loop ex_cliReadings cliKey_def ex_valid
          fun_upd_twist)
qed

subsection \<open>The published gauge set\<close>

text \<open>
  C1: the published gauge set of a scrape that completes holds exactly the keys observed
  during that scrape (lemma \<open>Collect_dom\<close>). The claim does not hold of every scrape: on
  the tree below the one descriptor is read, so its key is observed, but its label is not
  valid UTF-8, \<^verbatim>\<open>WithLabelValues\<close> panics and the scrape publishes nothing.
\<close>

theorem C1_scrape_panics_on_label:
  "collected exF exC (fsys exEnvBad) = [exBad1]
   \<and> readTemp exF (fsys exEnvBad) exBad1 = Some (317 / 8)
   \<and> sensorKey exBad1 = (''k10temp'', ''k10temp'', [CHR 0xFF])
   \<and> observedKeys exF exC exEnvBad = {(''k10temp'', ''k10temp'', [CHR 0xFF])}
   \<and> panicked (Collect exF exC exEnvBad initState) = Some (''k10temp'', ''k10temp'', [CHR 0xFF])"
proof -
  have fs: "fsys exEnvBad = exBadFs" by (simp add: exEnvBad_def)
  have hw: "discoverSensors exF exBadFs [''hwmon''] = Inr [exBad1]"
    by (simp add: eval_defs exBadFs_def exF_def exBad1_def)
  have th: "discoverThermalSensors exF exBadFs [''thermal''] = Inl ENOENT"
    by (simp add: discoverThermalSensors_def exBadFs_def)
  have col: "collected exF exC (fsys exEnvBad) = [exBad1]"
    by (simp add: fs collected_def hwmonPart_def thermalPart_def exC_def hw th)
  have rd: "readTemp exF (fsys exEnvBad) exBad1 = Some (317 / 8)"
    by (simp add: fs readTemp_def eval_defs exBadFs_def exF_def exBad1_def)
  have key: "sensorKey exBad1 = (''k10temp'', ''k10temp'', [CHR 0xFF])"
    by (simp add: sensorKey_def exBad1_def)
  have cli: "cliReadings exC (sensorsOut exEnvBad) = []"
    by (simp add: exEnvBad_def ex_cli_fail)
  have obs: "observedKeys exF exC exEnvBad = {(''k10temp'', ''k10temp'', [CHR 0xFF])}"
  proof -
    have "readTemp exF (fsys exEnvBad) exBad1 \<noteq> None" using rd by simp
    then show ?thesis
      unfolding observedKeys_def set_filter [symmetric]
      by (simp del: set_filter add: col cli key)
  qed
  have loop: "setSensors exF (fsys exEnvBad) (collected exF exC (fsys exEnvBad)) Map.empty
      = (Some (''k10temp'', ''k10temp'', [CHR 0xFF]), Map.empty)"
    unfolding col by (simp add: rd key ex_valid)
  have "panicked (Collect exF exC exEnvBad initState) = Some (''k10temp'', ''k10temp'', [CHR 0xFF])"
    by (simp add: Collect_panicked loop)
  then show ?thesis using col rd key obs by simp
qed

subsection \<open>Merging the backends\<close>

lemma ex_cli_two:
  "discoverSensorsCLI (sensorsOut exEnvCliTwo) = Inr [exR45, exR46]"
  "discoverSensorsCLI (sensorsOut exEnvCliTwoRev) = Inr [exR46, exR45]"
  by (simp_all add: exEnvCliTwo_def exEnvCliTwoRev_def exR45_def exR46_def
        discoverSensorsCLI_def chipReadings_def sectionReadings_def fieldReading_def
        matchTempInput_def HasPrefix_def HasSuffix_def TrimPrefix_def TrimSuffix_def isDigit_def)

text \<open>
  C4, as stated, fails: the two lm-sensors readings 45 and 46 of one section have no label
  and carry the key of the hwmon reading of \<^verbatim>\<open>temp2_input\<close> (41). The scrape completes and
  publishes 46 when 45 is merged first (so not the value of the reading 45), and 45 when
  46 is merged first (so not the value of the reading 46).
\<close>

theorem C4_counterexample:
  "discoverSensorsCLI (sensorsOut exEnvCliTwo) = Inr [exR45, exR46]
   \<and> discoverSensorsCLI (sensorsOut exEnvCliTwoRev) = Inr [exR46, exR45]
   \<and> readTemp exF exFs exD2 = Some 41
   \<and> cliKey exR45 = sensorKey exD2
   \<and> cliKey exR46 = sensorKey exD2
   \<and> cli_value exR45 = 45
   \<and> cli_value exR46 = 46
   \<and> panicked (Collect exF exC exEnvCliTwo initState) = None
   \<and> sensors (Collect exF exC exEnvCliTwo initState) (sensorKey exD2) = Some 46
   \<and> panicked (Collect exF exC exEnvCliTwoRev initState) = None
   \<and> sensors (Collect exF exC exEnvCliTwoRev initState) (sensorKey exD2) = Some 45"
proof -
  have en: "enableSensorsCli exC" by (simp add: exC_def)
  have fs: "fsys exEnvCliTwo = exFs" "fsys exEnvCliTwoRev = exFs"
    by (simp_all add: exEnvCliTwo_def exEnvCliTwoRev_def)
  have rs: "cliReadings exC (sensorsOut exEnvCliTwo) = [exR45, exR46]"
    "cliReadings exC (sensorsOut exEnvCliTwoRev) = [exR46, exR45]"
    using en by (simp_all add: cliReadings_def ex_cli_two)
  have k: "cliKey exR45 = (''k10temp'', ''k10temp'', [])" "cliKey exR46 = (''k10temp'', ''k10temp'', [])"
    by (simp_all add: cliKey_def exR45_def exR46_def)
  have v: "cli_value exR45 = 45" "cli_value exR46 = 46"
    by (simp_all add: exR45_def exR46_def)
  have loop: "setSensors exF exFs (collected exF exC exFs) Map.empty =
     (None, [(''k10temp'', ''k10temp'', []) \<mapsto> 41,
             (''thermal'', ''acpitz'', ''thermal_zone0'') \<mapsto> 52])"
    by (simp only: ex_collected ex_sensors)
  have p1: "panicked (Collect exF exC exEnvCliTwo initState) = None"
    by (simp add: Collect_panicked fs loop rs k ex_valid initState_def)
  have p2: "panicked (Collect exF exC exEnvCliTwoRev initState) = None"
    by (simp add: Collect_panicked fs loop rs k ex_valid initState_def)
  have s1: "sensors (Collect exF exC exEnvCliTwo initState) (sensorKey exD2) = Some 46"
    by (simp add: Collect_sensors [OF p1] fs loop rs k v ex_valid ex_keys)
  have s2: "sensors (Collect exF exC exEnvCliTwoRev initState) (sensorKey exD2) = Some 45"
    by (simp add: Collect_sensors [OF p2] fs loop rs k v ex_valid ex_keys)
  show ?thesis
    using ex_cli_two p1 p2 s1 s2 k v by (simp add: ex_readTemp ex_keys)
qed

text \<open>
  C4 (amended): in a scrape that completes, a key carried by an lm-sensors reading is
  published with the value of the lm-sensors reading with that key that is merged last,
  whatever the hwmon and thermal readings set under it; this is the value of a given
  reading whenever no lm-sensors reading with its key carries another value.
\<close>

theorem C4_cli_value_wins:
  assumes "panicked (Collect F c e st) = None"
    and "enableSensorsCli c"
    and "discoverSensorsCLI (sensorsOut e) = Inr rs"
    and "r \<in> set rs"
  shows "sensors (Collect F c e st) (cliKey r) =
           Some (cli_value (last (filter (\<lambda>x. cliKey x = cliKey r) rs)))
         \<and> ((\<forall>x \<in> set rs. cliKey x = cliKey r \<longrightarrow> cli_value x = cli_value r)
              \<longrightarrow> sensors (Collect F c e st) (cliKey r) = Some (cli_value r))"
proof -
  let ?same = "filter (\<lambda>x. cliKey x = cliKey r) rs"
  have rs: "cliReadings c (sensorsOut e) = rs"
    using assms(2,3) by (simp add: cliReadings_def)
  have ne: "?same \<noteq> []"
    using assms(4) by (auto simp: filter_empty_conv)
  have ok: "fst (setReadings rs
               (snd (setSensors F (fsys e) (collected F c (fsys e)) Map.empty))) = None"
    using Collect_completes(2) [OF assms(1)] by (simp add: rs)
  have val: "sensors (Collect F c e st) (cliKey r) = Some (cli_value (last ?same))"
    using setReadings_last [OF ok ne] by (simp add: Collect_sensors [OF assms(1)] rs)
  have "last ?same \<in> set ?same" using ne by (rule last_in_set)
  then have mem: "last ?same \<in> set rs \<and> cliKey (last ?same) = cliKey r" by simp
  show ?thesis using val mem by auto
qed

text \<open>
  Witness for C4: hwmon alone publishes 41 under the key of \<open>exD2\<close>; with an lm-sensors
  reading of 45 under the same key, 45 is published.
\<close>

theorem C4_cli_value_wins_witness:
  "readTemp exF exFs exD2 = Some 41
   \<and> sensorKey exD2 = (''k10temp'', ''k10temp'', [])
   \<and> sensors (Collect exF exC exEnv initState) (''k10temp'', ''k10temp'', []) = Some 41
   \<and> panicked (Collect exF exC exEnvCli initState) = None
   \<and> sensors (Collect exF exC exEnvCli initState) (''k10temp'', ''k10temp'', []) = Some 45"
proof -
  let ?r = "\<lparr>cli_chip = ''k10temp'', cli_name = ''k10temp'', cli_label = [], cli_value = 45::real\<rparr>"
  have en: "enableSensorsCli exC" by (simp add: exC_def)
  have alive: "panicked (Collect exF exC exEnvCli initState) = None"
    by (simp add: ex_completes initState_def)
  have mem: "?r \<in> set [?r]" by simp
  have k: "cliKey ?r = (''k10temp'', ''k10temp'', [])" by (simp add: cliKey_def)
  have cli: "sensors (Collect exF exC exEnvCli initState) (''k10temp'', ''k10temp'', []) = Some 45"
    using C4_cli_value_wins [OF alive en ex_cli mem] by (simp add: k)
  have hw: "sensors (Collect exF exC exEnv initState) (''k10temp'', ''k10temp'', []) = Some 41"
    by (simp add: ex_published)
  show ?thesis using cli hw alive by (simp add: ex_readTemp ex_keys)
qed

subsection \<open>Reading the descriptors\<close>

lemma setSensors_skip:
  "readTemp F fs d = None \<Longrightarrow>
   setSensors F fs (pre @ d # post) g = setSensors F fs (pre @ post) g"
  by (simp add: setSensors_append split: prod.splits option.splits)

lemma setSensors_unread:
  "\<forall>s \<in> set ss. sensorKey s = k \<longrightarrow> readTemp F fs s = None \<Longrightarrow>
   snd (setSensors F fs ss g) k = g k"
  by (rule setSensors_other) auto

lemma setSensors_at:
  assumes "fst (setSensors F fs (pre @ d # post) g) = None"
    and "\<forall>s \<in> set post. sensorKey s = sensorKey d \<longrightarrow> readTemp F fs s = None"
    and "readTemp F fs d = Some v"
  shows "snd (setSensors F fs (pre @ d # post) g) (sensorKey d) = Some v"
proof -
  obtain p g' where pre: "setSensors F fs pre g = (p, g')" by (cases "setSensors F fs pre g")
  have p: "p = None"
    using assms(1) pre by (cases p) (simp_all add: setSensors_append)
  have ok: "validLabelValues (sensorKey d)"
    using assms(1,3) pre p by (simp add: setSensors_append split: if_splits)
  have "setSensors F fs (pre @ d # post) g = setSensors F fs post (g'(sensorKey d \<mapsto> v))"
    using pre p ok assms(3) by (simp add: setSensors_append)
  then show ?thesis
    using setSensors_unread [OF assms(2), of "g'(sensorKey d \<mapsto> v)"] by simp
qed

lemma readTemp_Some:
  "readTemp F fs d = Some t \<longleftrightarrow>
     (\<exists>raw v. readFirstLine fs (path d) = Inr raw \<and> ParseFloat F (TrimSpace raw) = Some v
              \<and> t = fmul F v (factor d))"
  by (auto simp: readTemp_def split: sum.splits option.splits)

lemma readTemp_None:
  "readTemp F fs d = None \<longleftrightarrow>
     (\<exists>err. readFirstLine fs (path d) = Inl err)
     \<or> (\<exists>raw. readFirstLine fs (path d) = Inr raw \<and> ParseFloat F (TrimSpace raw) = None)"
  by (auto simp: readTemp_def split: sum.splits option.splits)

text \<open>
  C7, as stated, fails: the value of \<^verbatim>\<open>temp1_input\<close> is read and parsed (39625, times
  0.001) and the scrape completes, yet the value published under its key is 41, set by
  \<^verbatim>\<open>temp2_input\<close>, a later descriptor with the same key.
\<close>

theorem C7_counterexample:
  "collected exF exC (fsys exEnv) = [exD1, exD2, exD3, exZ0]
   \<and> readFirstLine (fsys exEnv) (path exD1) = Inr ''39625''
   \<and> ParseFloat exF (TrimSpace ''39625'') = Some 39625
   \<and> fmul exF 39625 (factor exD1) = 317 / 8
   \<and> panicked (Collect exF exC exEnv initState) = None
   \<and> sensors (Collect exF exC exEnv initState) (sensorKey exD1) = Some 41
   \<and> sensors (Collect exF exC exEnv initState) (sensorKey exD1)
       \<noteq> Some (fmul exF 39625 (factor exD1))"
proof -
  have col: "collected exF exC (fsys exEnv) = [exD1, exD2, exD3, exZ0]"
    by (simp add: exEnv_def ex_collected)
  have r1: "readFirstLine (fsys exEnv) (path exD1) = Inr ''39625''"
    by (simp add: exEnv_def exD1_def exFs_def readFirstLine_def scanFirst_def newline_def
          maxScanTokenSize_def dropCR_def TrimSpace_def isSpace_def)
  have p1: "ParseFloat exF (TrimSpace ''39625'') = Some 39625"
    by (simp add: exF_def TrimSpace_def isSpace_def)
  have m1: "fmul exF 39625 (factor exD1) = 317 / 8"
    by (simp add: exF_def exD1_def)
  have al: "panicked (Collect exF exC exEnv initState) = None"
    by (simp add: ex_completes initState_def)
  have pub: "sensors (Collect exF exC exEnv initState) (sensorKey exD1) = Some 41"
    by (simp add: ex_published ex_keys)
  show ?thesis using col r1 p1 m1 al pub by simp
qed

text \<open>
  C7 (amended), for every descriptor \<open>d\<close> and every scrape. If reading its raw value fails
  or the content is not a number, \<open>d\<close> alone is skipped: the loop over any list holding
  \<open>d\<close> does what it does over the list without \<open>d\<close>. If the value is read and parsed, the
  scrape completes, and neither a later descriptor that is read nor an lm-sensors reading
  carries the key of \<open>d\<close>, the published value for that key is the parsed value times the
  scale factor of \<open>d\<close>. In a scrape that completes, a key that no descriptor that is read
  and no lm-sensors reading carries is absent from the published set.
\<close>

theorem C7_descriptor_read_or_skipped:
  "(\<forall>pre post g.
      (\<exists>err. readFirstLine fs (path d) = Inl err)
      \<or> (\<exists>raw. readFirstLine fs (path d) = Inr raw \<and> ParseFloat F (TrimSpace raw) = None)
      \<longrightarrow> setSensors F fs (pre @ d # post) g = setSensors F fs (pre @ post) g)
   \<and> (\<forall>c e st pre post raw v.
        fsys e = fs \<and> panicked (Collect F c e st) = None
        \<and> collected F c fs = pre @ d # post
        \<and> readFirstLine fs (path d) = Inr raw \<and> ParseFloat F (TrimSpace raw) = Some v
        \<and> (\<forall>s \<in> set post. sensorKey s = sensorKey d \<longrightarrow> readTemp F fs s = None)
        \<and> sensorKey d \<notin> cliKey ` set (cliReadings c (sensorsOut e))
        \<longrightarrow> sensors (Collect F c e st) (sensorKey d) = Some (fmul F v (factor d)))
   \<and> (\<forall>c e st k.
        fsys e = fs \<and> panicked (Collect F c e st) = None
        \<and> (\<forall>s \<in> set (collected F c fs). sensorKey s = k \<longrightarrow> readTemp F fs s = None)
        \<and> k \<notin> cliKey ` set (cliReadings c (sensorsOut e))
        \<longrightarrow> sensors (Collect F c e st) k = None)"
proof (intro conjI allI impI)
  fix pre post g
  assume "(\<exists>err. readFirstLine fs (path d) = Inl err)
      \<or> (\<exists>raw. readFirstLine fs (path d) = Inr raw \<and> ParseFloat F (TrimSpace raw) = None)"
  then have "readTemp F fs d = None" by (simp add: readTemp_None)
  then show "setSensors F fs (pre @ d # post) g = setSensors F fs (pre @ post) g"
    by (rule setSensors_skip)
next
  fix c e st pre post raw v
  assume h: "fsys e = fs \<and> panicked (Collect F c e st) = None
        \<and> collected F c fs = pre @ d # post
        \<and> readFirstLine fs (path d) = Inr raw \<and> ParseFloat F (TrimSpace raw) = Some v
        \<and> (\<forall>s \<in> set post. sensorKey s = sensorKey d \<longrightarrow> readTemp F fs s = None)
        \<and> sensorKey d \<notin> cliKey ` set (cliReadings c (sensorsOut e))"
  then have al: "panicked (Collect F c e st) = None" by simp
  have rd: "readTemp F fs d = Some (fmul F v (factor d))"
    using h by (simp add: readTemp_def)
  have loop: "fst (setSensors F fs (pre @ d # post) Map.empty) = None"
    using Collect_completes(1) [OF al] h by simp
  have post: "\<forall>s \<in> set post. sensorKey s = sensorKey d \<longrightarrow> readTemp F fs s = None"
    using h by simp
  have "snd (setSensors F fs (pre @ d # post) Map.empty) (sensorKey d) = Some (fmul F v (factor d))"
    by (rule setSensors_at [OF loop post rd])
  moreover have "sensorKey d \<notin> cliKey ` set (cliReadings c (sensorsOut e))" using h by simp
  ultimately show "sensors (Collect F c e st) (sensorKey d) = Some (fmul F v (factor d))"
    using h by (simp add: Collect_sensors [OF al] setReadings_other)
next
  fix c e st k
  assume h: "fsys e = fs \<and> panicked (Collect F c e st) = None
        \<and> (\<forall>s \<in> set (collected F c fs). sensorKey s = k \<longrightarrow> readTemp F fs s = None)
        \<and> k \<notin> cliKey ` set (cliReadings c (sensorsOut e))"
  then have al: "panicked (Collect F c e st) = None" by simp
  have un: "\<forall>s \<in> set (collected F c fs). sensorKey s = k \<longrightarrow> readTemp F fs s = None"
    using h by simp
  have "snd (setSensors F fs (collected F c fs) Map.empty) k = None"
    using setSensors_unread [OF un, of Map.empty] by simp
  moreover have "k \<notin> cliKey ` set (cliReadings c (sensorsOut e))" using h by simp
  ultimately show "sensors (Collect F c e st) k = None"
    using h by (simp add: Collect_sensors [OF al] setReadings_other)
qed

text \<open>
  Witness for C7: \<^verbatim>\<open>temp2_input\<close> is read and published as 41000 times 0.001;
  \<^verbatim>\<open>temp3_input\<close> cannot be read, is skipped, and its key is absent; the thermal zone
  after it is still published.
\<close>

theorem C7_descriptor_read_or_skipped_witness:
  "panicked (Collect exF exC exEnv initState) = None
   \<and> collected exF exC exFs = [exD1] @ exD2 # [exD3, exZ0]
   \<and> readFirstLine exFs (path exD2) = Inr ''41000''
   \<and> ParseFloat exF (TrimSpace ''41000'') = Some 41000
   \<and> sensors (Collect exF exC exEnv initState) (sensorKey exD2) = Some (fmul exF 41000 (factor exD2))
   \<and> readFirstLine exFs (path exD3) = Inl EIO
   \<and> setSensors exF exFs ([exD1, exD2] @ exD3 # [exZ0]) Map.empty
       = setSensors exF exFs ([exD1, exD2] @ [exZ0]) Map.empty
   \<and> sensors (Collect exF exC exEnv initState) (sensorKey exD3) = None
   \<and> sensors (Collect exF exC exEnv initState) (sensorKey exZ0) = Some 52"
proof -
  have al: "panicked (Collect exF exC exEnv initState) = None"
    by (simp add: ex_completes initState_def)
  have fs: "fsys exEnv = exFs" by (simp add: ex_fsys)
  have col2: "collected exF exC exFs = [exD1] @ exD2 # [exD3, exZ0]"
    by (simp add: ex_collected)
  have nocli: "sensorKey exD2 \<notin> cliKey ` set (cliReadings exC (sensorsOut exEnv))"
    "sensorKey exD3 \<notin> cliKey ` set (cliReadings exC (sensorsOut exEnv))"
    by (simp_all add: ex_cliReadings)
  have post2: "\<forall>s \<in> set [exD3, exZ0]. sensorKey s = sensorKey exD2 \<longrightarrow> readTemp exF exFs s = None"
    by (simp add: ex_keys)
  have un3: "\<forall>s \<in> set (collected exF exC exFs). sensorKey s = sensorKey exD3 \<longrightarrow> readTemp exF exFs s = None"
    by (simp add: ex_collected ex_keys ex_readTemp)
  have r2: "readFirstLine exFs (path exD2) = Inr ''41000''"
    by (simp add: exD2_def exFs_def readFirstLine_def scanFirst_def newline_def
          maxScanTokenSize_def dropCR_def TrimSpace_def isSpace_def)
  have p2: "ParseFloat exF (TrimSpace ''41000'') = Some 41000"
    by (simp add: exF_def TrimSpace_def isSpace_def)
  have r3: "readFirstLine exFs (path exD3) = Inl EIO"
    by (simp add: exD3_def exFs_def readFirstLine_def)
  note main2 = C7_descriptor_read_or_skipped [where fs = exFs and d = exD2 and F = exF]
  note main3 = C7_descriptor_read_or_skipped [where fs = exFs and d = exD3 and F = exF]
  have v2: "sensors (Collect exF exC exEnv initState) (sensorKey exD2) = Some (fmul exF 41000 (factor exD2))"
    using main2 fs al col2 r2 p2 post2 nocli(1) by blast
  have sk: "setSensors exF exFs ([exD1, exD2] @ exD3 # [exZ0]) Map.empty
       = setSensors exF exFs ([exD1, exD2] @ [exZ0]) Map.empty"
    using main3 r3 by blast
  have v3: "sensors (Collect exF exC exEnv initState) (sensorKey exD3) = None"
    using main3 fs al un3 nocli(2) by blast
  have vz: "sensors (Collect exF exC exEnv initState) (sensorKey exZ0) = Some 52"
    by (simp add: ex_published ex_keys)
  show ?thesis using al col2 r2 p2 r3 v2 sk v3 vz by simp
qed

subsection \<open>Logging the failure of the lm-sensors backend\<close>

lemma hwmonPart_log: "filter isCliError (snd (hwmonPart F c fs)) = []"
  by (simp add: hwmonPart_def isCliError_def split: sum.splits)

lemma thermalPart_log: "filter isCliError (snd (thermalPart F c fs)) = []"
  by (simp add: thermalPart_def isCliError_def split: sum.splits)

lemma cliPart_log_cli:
  "filter isCliError (fst (snd (cliPart c out w g))) = fst (snd (cliPart c out w g))"
proof (cases "discoverSensorsCLI out")
  case (Inl err)
  then show ?thesis by (simp add: cliPart_def isCliError_def)
next
  case (Inr rs)
  then show ?thesis by (simp add: cliPart_def)
qed

lemma Collect_cli_log:
  "filter isCliError (logged (Collect F c e st)) =
     filter isCliError (logged st)
     @ (if fst (setSensors F (fsys e) (collected F c (fsys e)) Map.empty) = None
           \<and> enableSensorsCli c \<and> \<not> sensorsCliWarned st then
          (case discoverSensorsCLI (sensorsOut e) of
             Inl err \<Rightarrow> [DiscoverSensorsCLIError err]
           | Inr _ \<Rightarrow> [])
        else [])"
proof (cases "fst (setSensors F (fsys e) (collected F c (fsys e)) Map.empty)")
  case (Some k)
  then show ?thesis
    by (simp add: Collect_unfold Let_def hwmonPart_log thermalPart_log)
next
  case None
  let ?r2 = "cliPart c (sensorsOut e) (sensorsCliWarned st)
               (snd (setSensors F (fsys e) (collected F c (fsys e)) Map.empty))"
  have lg: "logged (Collect F c e st) =
      logged st @ (snd (hwmonPart F c (fsys e)) @ snd (thermalPart F c (fsys e))) @ fst (snd ?r2)"
    using None by (cases "fst (fst ?r2)") (simp_all add: Collect_unfold Let_def)
  have "filter isCliError (logged (Collect F c e st)) =
      filter isCliError (logged st) @ filter isCliError (fst (snd ?r2))"
    unfolding lg by (simp add: hwmonPart_log thermalPart_log)
  also have "filter isCliError (fst (snd ?r2)) = fst (snd ?r2)"
    by (rule cliPart_log_cli)
  also have "fst (snd ?r2) =
      (if enableSensorsCli c \<and> \<not> sensorsCliWarned st then
         (case discoverSensorsCLI (sensorsOut e) of
            Inl err \<Rightarrow> [DiscoverSensorsCLIError err]
          | Inr _ \<Rightarrow> [])
       else [])"
    by (rule cliPart_log)
  finally show ?thesis using None by simp
qed

lemma Collect_cli_warned:
  "sensorsCliWarned (Collect F c e st) \<longleftrightarrow>
     sensorsCliWarned st
     \<or> (fst (setSensors F (fsys e) (collected F c (fsys e)) Map.empty) = None
        \<and> enableSensorsCli c \<and> isl (discoverSensorsCLI (sensorsOut e)))"
  by (auto simp: Collect_unfold Let_def cliPart_warned split: option.splits)

lemma Collect_alive: "panicked (Collect F c e st) = None \<Longrightarrow> panicked st = None"
  unfolding Collect_panicked by (simp split: option.splits)

lemma scrapes_dead: "panicked st \<noteq> None \<Longrightarrow> scrapes F c es st = st"
  by (cases es) simp_all

lemma scrapes_append: "scrapes F c (xs @ ys) st = scrapes F c ys (scrapes F c xs st)"
  by (induction xs arbitrary: st) (simp_all add: scrapes_dead)

lemma scrapes_alive: "panicked (scrapes F c es st) = None \<Longrightarrow> panicked st = None"
proof (induction es arbitrary: st)
  case Nil
  then show ?case by simp
next
  case (Cons e es)
  show ?case
  proof (cases "panicked st")
    case None
    then show ?thesis .
  next
    case (Some k)
    then show ?thesis using Cons.prems by simp
  qed
qed

lemma scrapes_warned:
  "sensorsCliWarned st \<Longrightarrow>
   filter isCliError (logged (scrapes F c es st)) = filter isCliError (logged st)
   \<and> sensorsCliWarned (scrapes F c es st)"
proof (induction es arbitrary: st)
  case Nil
  then show ?case by simp
next
  case (Cons e es)
  have w: "sensorsCliWarned (Collect F c e st)"
    using Cons.prems by (simp add: Collect_cli_warned)
  have l: "filter isCliError (logged (Collect F c e st)) = filter isCliError (logged st)"
    using Cons.prems by (simp add: Collect_cli_log)
  show ?case using Cons.IH [OF w] l Cons.prems by simp
qed

lemma scrapes_quiet:
  "\<forall>x \<in> set es. \<not> (enableSensorsCli c \<and> isl (discoverSensorsCLI (sensorsOut x))) \<Longrightarrow>
   filter isCliError (logged (scrapes F c es st)) = filter isCliError (logged st)
   \<and> sensorsCliWarned (scrapes F c es st) = sensorsCliWarned st"
proof (induction es arbitrary: st)
  case Nil
  then show ?case by simp
next
  case (Cons e es)
  have q: "\<not> (enableSensorsCli c \<and> isl (discoverSensorsCLI (sensorsOut e)))"
    using Cons.prems by simp
  have w: "sensorsCliWarned (Collect F c e st) = sensorsCliWarned st"
    using q by (auto simp: Collect_cli_warned)
  have l: "filter isCliError (logged (Collect F c e st)) = filter isCliError (logged st)"
    using q by (auto simp: Collect_cli_log split: sum.splits)
  have rest: "\<forall>x \<in> set es. \<not> (enableSensorsCli c \<and> isl (discoverSensorsCLI (sensorsOut x)))"
    using Cons.prems by simp
  show ?case using Cons.IH [OF rest, where st = "Collect F c e st"] l w by simp
qed

lemma Collect_cli_count:
  assumes "length (filter isCliError (logged st)) = (if sensorsCliWarned st then 1 else 0)"
  shows "length (filter isCliError (logged (Collect F c e st)))
           = (if sensorsCliWarned (Collect F c e st) then 1 else 0)"
  using assms by (auto simp: Collect_cli_log Collect_cli_warned split: sum.splits)

lemma scrapes_cli_count:
  "length (filter isCliError (logged st)) = (if sensorsCliWarned st then 1 else 0) \<Longrightarrow>
   length (filter isCliError (logged (scrapes F c es st)))
     = (if sensorsCliWarned (scrapes F c es st) then 1 else 0)"
proof (induction es arbitrary: st)
  case Nil
  then show ?case by simp
next
  case (Cons e es)
  show ?case
  proof (cases "panicked st")
    case None
    then show ?thesis
      using Cons.IH [OF Collect_cli_count [OF Cons.prems]] by simp
  next
    case (Some k)
    then show ?thesis using Cons.prems by simp
  qed
qed

text \<open>
  C9: over any sequence of scrapes from the initial state, a failure of the lm-sensors
  backend is logged at most once. The first scrape in which the backend is run and fails
  (the process being alive after it) logs its error; that entry is the only one after
  all later scrapes, whatever they do; once the flag is set, no scrape adds such an
  entry or clears the flag; and a scrape that panics adds none.
\<close>

theorem C9_cli_failure_logged_once:
  "length (filter isCliError (logged (scrapes F c es initState))) \<le> 1
   \<and> (\<forall>pre e post err.
        es = pre @ e # post \<and> enableSensorsCli c
        \<and> (\<forall>x \<in> set pre. \<not> isl (discoverSensorsCLI (sensorsOut x)))
        \<and> discoverSensorsCLI (sensorsOut e) = Inl err
        \<and> panicked (scrapes F c (pre @ [e]) initState) = None
        \<longrightarrow> filter isCliError (logged (scrapes F c pre initState)) = []
            \<and> filter isCliError (logged (scrapes F c (pre @ [e]) initState))
                = [DiscoverSensorsCLIError err]
            \<and> filter isCliError (logged (scrapes F c es initState))
                = [DiscoverSensorsCLIError err])
   \<and> (\<forall>st e. sensorsCliWarned st \<longrightarrow>
         filter isCliError (logged (Collect F c e st)) = filter isCliError (logged st)
         \<and> sensorsCliWarned (Collect F c e st))
   \<and> (\<forall>st e. panicked st = None \<and> panicked (Collect F c e st) \<noteq> None \<longrightarrow>
         filter isCliError (logged (Collect F c e st)) = filter isCliError (logged st))"
proof -
  have first: "filter isCliError (logged (scrapes F c pre initState)) = []
      \<and> filter isCliError (logged (scrapes F c (pre @ [e]) initState)) = [DiscoverSensorsCLIError err]
      \<and> filter isCliError (logged (scrapes F c (pre @ e # post) initState)) = [DiscoverSensorsCLIError err]"
    if en: "enableSensorsCli c"
      and ok: "\<forall>x \<in> set pre. \<not> isl (discoverSensorsCLI (sensorsOut x))"
      and fail: "discoverSensorsCLI (sensorsOut e) = Inl err"
      and alive: "panicked (scrapes F c (pre @ [e]) initState) = None"
    for pre e post err
  proof -
    let ?s = "scrapes F c pre (initState :: 'a state)"
    have q: "\<forall>x \<in> set pre. \<not> (enableSensorsCli c \<and> isl (discoverSensorsCLI (sensorsOut x)))"
      using ok by simp
    have s0: "filter isCliError (logged ?s) = [] \<and> \<not> sensorsCliWarned ?s"
      using scrapes_quiet [OF q, where st = initState and F = F] by (simp add: initState_def)
    have al1: "panicked (scrapes F c [e] ?s) = None"
      using alive by (simp only: scrapes_append)
    then have al0: "panicked ?s = None" by (rule scrapes_alive)
    then have step: "scrapes F c [e] ?s = Collect F c e ?s" by simp
    have al2: "panicked (Collect F c e ?s) = None" using al1 step by simp
    have loop: "fst (setSensors F (fsys e) (collected F c (fsys e)) Map.empty) = None"
      by (rule Collect_completes(1) [OF al2])
    have s1: "filter isCliError (logged (Collect F c e ?s)) = [DiscoverSensorsCLIError err]"
      using s0 en fail loop by (simp add: Collect_cli_log)
    have w1: "sensorsCliWarned (Collect F c e ?s)"
      using en fail loop by (simp add: Collect_cli_warned)
    have s2: "filter isCliError (logged (scrapes F c post (Collect F c e ?s))) = [DiscoverSensorsCLIError err]"
      using scrapes_warned [OF w1, where es = post] s1 by simp
    have e1: "scrapes F c (pre @ [e]) initState = Collect F c e ?s"
      using step by (simp only: scrapes_append)
    have e2: "scrapes F c (pre @ e # post) initState = scrapes F c post (Collect F c e ?s)"
    proof -
      have "pre @ e # post = (pre @ [e]) @ post" by simp
      then show ?thesis using e1 by (simp only: scrapes_append)
    qed
    show ?thesis using s0 s1 s2 e1 e2 by simp
  qed
  have le: "length (filter isCliError (logged (scrapes F c es initState))) \<le> 1"
  proof -
    have "length (filter isCliError (logged (initState :: 'a state)))
        = (if sensorsCliWarned (initState :: 'a state) then 1 else 0)"
      by (simp add: initState_def)
    from scrapes_cli_count [OF this, of F c es] show ?thesis by (simp split: if_splits)
  qed
  have warned: "filter isCliError (logged (Collect F c e st)) = filter isCliError (logged st)
      \<and> sensorsCliWarned (Collect F c e st)" if "sensorsCliWarned st" for st :: "'a state" and e
    using that by (simp add: Collect_cli_log Collect_cli_warned)
  have crash: "filter isCliError (logged (Collect F c e st)) = filter isCliError (logged st)"
    if "panicked st = None \<and> panicked (Collect F c e st) \<noteq> None" for st :: "'a state" and e
  proof (cases "discoverSensorsCLI (sensorsOut e)")
    case (Inl err)
    then have "cliReadings c (sensorsOut e) = []" by (simp add: cliReadings_def)
    then have "fst (setSensors F (fsys e) (collected F c (fsys e)) Map.empty) \<noteq> None"
      using that unfolding Collect_panicked by (auto split: option.splits)
    then obtain k where "fst (setSensors F (fsys e) (collected F c (fsys e)) Map.empty) = Some k"
      by blast
    then show ?thesis by (simp add: Collect_cli_log)
  next
    case (Inr rs)
    then show ?thesis by (simp add: Collect_cli_log)
  qed
  show ?thesis using le first warned crash by blast
qed

text \<open>
  Witness for C9: one scrape in which \<^verbatim>\<open>sensors -j\<close> answers, then three in which it
  fails: one log entry.
\<close>

theorem C9_cli_failure_logged_once_witness:
  "enableSensorsCli exC
   \<and> discoverSensorsCLI (sensorsOut exEnv) = Inl ExecError
   \<and> panicked (scrapes exF exC ([exEnvCli] @ [exEnv]) initState) = None
   \<and> filter isCliError (logged (scrapes exF exC [exEnvCli, exEnv, exEnv, exEnv] initState))
       = [DiscoverSensorsCLIError ExecError]
   \<and> length (filter isCliError (logged (scrapes exF exC [exEnvCli, exEnv, exEnv, exEnv] initState))) \<le> 1"
proof -
  have en: "enableSensorsCli exC" by (simp add: exC_def)
  have fail: "discoverSensorsCLI (sensorsOut exEnv) = Inl ExecError"
    by (simp add: exEnv_def discoverSensorsCLI_def)
  have ok: "\<forall>x \<in> set [exEnvCli]. \<not> isl (discoverSensorsCLI (sensorsOut x))"
    by (simp add: ex_cli)
  have alive: "panicked (scrapes exF exC ([exEnvCli] @ [exEnv]) initState) = None"
    by (simp add: ex_completes) (simp add: initState_def)
  have split: "[exEnvCli, exEnv, exEnv, exEnv] = [exEnvCli] @ exEnv # [exEnv, exEnv]" by simp
  from C9_cli_failure_logged_once [of exF exC "[exEnvCli, exEnv, exEnv, exEnv]"]
    split en ok fail alive
  have "filter isCliError (logged (scrapes exF exC [exEnvCli, exEnv, exEnv, exEnv] initState))
       = [DiscoverSensorsCLIError ExecError]"
    by blast
  then show ?thesis using en fail alive by simp
qed

subsection \<open>A backend that is not there\<close>

text \<open>
  C6: a scrape in which the hwmon base path cannot be listed contributes no hwmon
  descriptor and goes on to the thermal zones. The claim that it still completes and
  publishes the thermal readings does not hold of every such scrape: on the tree below
  the hwmon base path does not exist, the one thermal zone is discovered and its value
  read, but its \<^verbatim>\<open>type\<close> is not valid UTF-8; \<^verbatim>\<open>WithLabelValues\<close> panics, nothing is
  published and the scrape duration is not set.
\<close>

theorem C6_scrape_panics_on_zone_type:
  "ReadDir (fsys exEnvBadZone) (basePath exNoHwmon) = Inl ENOENT
   \<and> enableThermal exNoHwmon
   \<and> collected exF exNoHwmon (fsys exEnvBadZone) = [exBadZ0]
   \<and> readTemp exF (fsys exEnvBadZone) exBadZ0 = Some 52
   \<and> sensorKey exBadZ0 = (''thermal'', [CHR 0xFF], ''thermal_zone0'')
   \<and> panicked (Collect exF exNoHwmon exEnvBadZone exStale)
       = Some (''thermal'', [CHR 0xFF], ''thermal_zone0'')
   \<and> scrapeTime (Collect exF exNoHwmon exEnvBadZone exStale) = scrapeTime exStale
   \<and> logged (Collect exF exNoHwmon exEnvBadZone exStale) = [DiscoverSensorsError ENOENT]"
proof -
  have fs: "fsys exEnvBadZone = exBadZoneFs" by (simp add: exEnvBadZone_def)
  have bp: "basePath exNoHwmon = [''nohwmon'']" "thermalPath exNoHwmon = [''thermal'']"
    "enableHwmon exNoHwmon" "enableThermal exNoHwmon"
    by (simp_all add: exNoHwmon_def exC_def)
  have rd: "ReadDir exBadZoneFs [''nohwmon''] = Inl ENOENT"
    by (simp add: exBadZoneFs_def)
  have hw: "hwmonPart exF exNoHwmon exBadZoneFs = ([], [DiscoverSensorsError ENOENT])"
  proof -
    have "discoverSensors exF exBadZoneFs [''nohwmon''] = Inl ENOENT"
      by (simp add: discoverSensors_def exBadZoneFs_def)
    then show ?thesis by (simp add: hwmonPart_def bp)
  qed
  have th: "discoverThermalSensors exF exBadZoneFs [''thermal''] = Inr [exBadZ0]"
    by (simp add: eval_defs exBadZoneFs_def exF_def exBadZ0_def)
  have tp: "thermalPart exF exNoHwmon exBadZoneFs = ([exBadZ0], [])"
    by (simp add: thermalPart_def bp th)
  have col: "collected exF exNoHwmon (fsys exEnvBadZone) = [exBadZ0]"
    by (simp add: fs collected_def hw tp)
  have rt: "readTemp exF (fsys exEnvBadZone) exBadZ0 = Some 52"
    by (simp add: fs readTemp_def eval_defs exBadZoneFs_def exF_def exBadZ0_def)
  have key: "sensorKey exBadZ0 = (''thermal'', [CHR 0xFF], ''thermal_zone0'')"
    by (simp add: sensorKey_def exBadZ0_def)
  have loop: "setSensors exF (fsys exEnvBadZone) (collected exF exNoHwmon (fsys exEnvBadZone)) Map.empty
      = (Some (''thermal'', [CHR 0xFF], ''thermal_zone0''), Map.empty)"
    unfolding col by (simp add: rt key ex_valid)
  have p: "panicked (Collect exF exNoHwmon exEnvBadZone exStale)
       = Some (''thermal'', [CHR 0xFF], ''thermal_zone0'')"
    by (simp add: Collect_panicked loop)
  have t: "scrapeTime (Collect exF exNoHwmon exEnvBadZone exStale) = scrapeTime exStale"
    by (simp add: Collect_unfold Let_def loop)
  have lg: "snd (hwmonPart exF exNoHwmon (fsys exEnvBadZone))
        @ snd (thermalPart exF exNoHwmon (fsys exEnvBadZone)) = [DiscoverSensorsError ENOENT]"
    by (simp add: fs hw tp)
  have l: "logged (Collect exF exNoHwmon exEnvBadZone exStale) = [DiscoverSensorsError ENOENT]"
    by (simp add: Collect_unfold Let_def loop lg) (simp add: exStale_def)
  show ?thesis using rd bp col rt key p t l by (simp add: fs)
qed

subsection \<open>The lm-sensors document of the specification\<close>

lemmas cli_defs =
  discoverSensorsCLI_def chipReadings_def sectionReadings_def fieldReading_def
  matchTempInput_def HasPrefix_def HasSuffix_def TrimPrefix_def TrimSuffix_def isDigit_def

text \<open>
  C8: for the decoded document of the claim, whichever way the section's two fields are
  visited, the lm-sensors discoverer returns exactly one reading, with chip
  \<^verbatim>\<open>coretemp-isa-0000\<close>, sensor \<^verbatim>\<open>Core 0\<close>, label \<^verbatim>\<open>Core 0\<close> and the decoded number as its
  value, unscaled; a scrape with this backend alone does not panic and publishes exactly
  that entry.
\<close>

theorem C8_coretemp_reading:
  "discoverSensorsCLI (Inr (exCoretemp v)) =
     Inr [\<lparr>cli_chip = ''coretemp-isa-0000'', cli_name = ''Core 0'', cli_label = ''Core 0'',
           cli_value = v\<rparr>]
   \<and> discoverSensorsCLI (Inr (exCoretempRev v)) =
     Inr [\<lparr>cli_chip = ''coretemp-isa-0000'', cli_name = ''Core 0'', cli_label = ''Core 0'',
           cli_value = v\<rparr>]
   \<and> sensors (Collect F exCliOnly
         \<lparr>fsys = fs, sensorsOut = Inr (exCoretemp v), clockStart = t0, clockEnd = t1\<rparr> st)
       = [(''coretemp-isa-0000'', ''Core 0'', ''Core 0'') \<mapsto> v]
   \<and> panicked (Collect F exCliOnly
         \<lparr>fsys = fs, sensorsOut = Inr (exCoretemp v), clockStart = t0, clockEnd = t1\<rparr> st)
       = panicked st"
proof -
  have a: "discoverSensorsCLI (Inr (exCoretemp v)) =
     Inr [\<lparr>cli_chip = ''coretemp-isa-0000'', cli_name = ''Core 0'', cli_label = ''Core 0'',
           cli_value = v\<rparr>]"
    by (simp add: exCoretemp_def cli_defs)
  have b: "discoverSensorsCLI (Inr (exCoretempRev v)) =
     Inr [\<lparr>cli_chip = ''coretemp-isa-0000'', cli_name = ''Core 0'', cli_label = ''Core 0'',
           cli_value = v\<rparr>]"
    by (simp add: exCoretempRev_def cli_defs)
  have c: "collected F exCliOnly fs = []"
    by (simp add: collected_def hwmonPart_def thermalPart_def exCliOnly_def)
  have en: "enableSensorsCli exCliOnly" by (simp add: exCliOnly_def)
  have rs: "cliReadings exCliOnly (Inr (exCoretemp v)) =
      [\<lparr>cli_chip = ''coretemp-isa-0000'', cli_name = ''Core 0'', cli_label = ''Core 0'',
        cli_value = v\<rparr>]"
    using en by (simp add: cliReadings_def a)
  have p: "panicked (Collect F exCliOnly
         \<lparr>fsys = fs, sensorsOut = Inr (exCoretemp v), clockStart = t0, clockEnd = t1\<rparr> st)
       = panicked st"
    by (simp add: Collect_panicked c rs cliKey_def ex_valid)
  have d: "sensors (Collect F exCliOnly
         \<lparr>fsys = fs, sensorsOut = Inr (exCoretemp v), clockStart = t0, clockEnd = t1\<rparr> st)
       = [(''coretemp-isa-0000'', ''Core 0'', ''Core 0'') \<mapsto> v]"
    by (simp add: Collect_unfold Let_def cliPart_gauge c rs cliKey_def ex_valid)
  show ?thesis using a b d p by simp
qed

text \<open>The instance of C8 at the value 39.\<close>

theorem C8_coretemp_reading_witness:
  "discoverSensorsCLI (Inr (exCoretemp (39 :: real))) =
     Inr [\<lparr>cli_chip = ''coretemp-isa-0000'', cli_name = ''Core 0'', cli_label = ''Core 0'',
           cli_value = 39\<rparr>]
   \<and> sensors (Collect exF exCliOnly
         \<lparr>fsys = exFs, sensorsOut = Inr (exCoretemp 39), clockStart = 0, clockEnd = 5\<rparr> initState)
         (''coretemp-isa-0000'', ''Core 0'', ''Core 0'') = Some 39"
  using C8_coretemp_reading [of "39 :: real" exF exFs 0 5 initState] by simp

subsection \<open>Which files the hwmon discoverer selects\<close>














subsection \<open>The label of a hwmon sensor\<close>

lemma label_type_paths_differ:
  "Join chipDir (''temp'' @ idx @ ''_type'') \<noteq> Join chipDir (''temp'' @ idx @ ''_label'')"
  by (simp add: Join_def)

text \<open>
  C3, as stated, fails: \<^verbatim>\<open>temp3_label\<close> is readable and its content is empty (a blank
  line), \<^verbatim>\<open>temp3_type\<close> is readable and holds \<^verbatim>\<open>Tdie\<close>; the resolved label is the empty
  string, not \<^verbatim>\<open>Tdie\<close>, and the type file is not opened.
\<close>

theorem C3_counterexample:
  "readFirstLine exLabelFs [''hwmon'', ''hwmon0'', ''temp3_label''] = Inr []
   \<and> readFirstLine exLabelFs [''hwmon'', ''hwmon0'', ''temp3_type''] = Inr ''Tdie''
   \<and> resolveLabel exLabelFs [''hwmon'', ''hwmon0''] ''3''
       = ([], [[''hwmon'', ''hwmon0'', ''temp3_label'']])
   \<and> fst (resolveLabel exLabelFs [''hwmon'', ''hwmon0''] ''3'') \<noteq> ''Tdie''"
  by (simp add: resolveLabel_def Join_def exLabelFs_def readFirstLine_def scanFirst_def
        newline_def maxScanTokenSize_def dropCR_def TrimSpace_def isSpace_def)

text \<open>
  C3 (amended): the resolved label of \<^verbatim>\<open>temp<N>_input\<close> is the first line of
  \<^verbatim>\<open>temp<N>_label\<close> whenever that file is read without error, empty or not, and then
  \<^verbatim>\<open>temp<N>_type\<close> is not opened; otherwise it is the first line of \<^verbatim>\<open>temp<N>_type\<close>
  when that is read without error; otherwise it is empty. This is the label of the
  descriptor emitted for the file.
\<close>

theorem C3_label_precedence:
  "(\<forall>l. readFirstLine fs (Join chipDir (''temp'' @ idx @ ''_label'')) = Inr l \<longrightarrow>
        fst (resolveLabel fs chipDir idx) = l
        \<and> Join chipDir (''temp'' @ idx @ ''_type'') \<notin> set (snd (resolveLabel fs chipDir idx)))
   \<and> (\<forall>err t. readFirstLine fs (Join chipDir (''temp'' @ idx @ ''_label'')) = Inl err
              \<and> readFirstLine fs (Join chipDir (''temp'' @ idx @ ''_type'')) = Inr t \<longrightarrow>
        fst (resolveLabel fs chipDir idx) = t)
   \<and> (\<forall>err err'. readFirstLine fs (Join chipDir (''temp'' @ idx @ ''_label'')) = Inl err
              \<and> readFirstLine fs (Join chipDir (''temp'' @ idx @ ''_type'')) = Inl err' \<longrightarrow>
        fst (resolveLabel fs chipDir idx) = [])
   \<and> (\<forall>fname. tempIndex fname = Some idx \<longrightarrow>
        map label (fileSensor F fs chipDir chipName fname) = [fst (resolveLabel fs chipDir idx)])"
  using label_type_paths_differ [of chipDir idx]
  by (auto simp: resolveLabel_def Let_def fileSensor_def)

text \<open>
  Witness for C3: a label file holding \<^verbatim>\<open>Tctl\<close>; a type file only, holding \<^verbatim>\<open>Tdie\<close>;
  neither file.
\<close>

theorem C3_label_precedence_witness:
  "readFirstLine exFs (Join [''hwmon'', ''hwmon0''] (''temp'' @ ''3'' @ ''_label'')) = Inr ''Tctl''
   \<and> resolveLabel exFs [''hwmon'', ''hwmon0''] ''3'' = (''Tctl'', [[''hwmon'', ''hwmon0'', ''temp3_label'']])
   \<and> readFirstLine exLabelFs (Join [''hwmon'', ''hwmon0''] (''temp'' @ ''4'' @ ''_label'')) = Inl ENOENT
   \<and> readFirstLine exLabelFs (Join [''hwmon'', ''hwmon0''] (''temp'' @ ''4'' @ ''_type'')) = Inr ''Tdie''
   \<and> fst (resolveLabel exLabelFs [''hwmon'', ''hwmon0''] ''4'') = ''Tdie''
   \<and> readFirstLine exLabelFs (Join [''hwmon'', ''hwmon0''] (''temp'' @ ''5'' @ ''_type'')) = Inl ENOENT
   \<and> fst (resolveLabel exLabelFs [''hwmon'', ''hwmon0''] ''5'') = []
   \<and> tempIndex ''temp3_input'' = Some ''3''
   \<and> map label (fileSensor exF exFs [''hwmon'', ''hwmon0''] ''k10temp'' ''temp3_input'') = [''Tctl'']"
proof -
  have l3: "readFirstLine exFs (Join [''hwmon'', ''hwmon0''] (''temp'' @ ''3'' @ ''_label'')) = Inr ''Tctl''"
    by (simp add: Join_def exFs_def readFirstLine_def scanFirst_def
        newline_def maxScanTokenSize_def dropCR_def TrimSpace_def isSpace_def)
  have l4: "readFirstLine exLabelFs (Join [''hwmon'', ''hwmon0''] (''temp'' @ ''4'' @ ''_label'')) = Inl ENOENT"
    by (simp add: Join_def exLabelFs_def readFirstLine_def)
  have t4: "readFirstLine exLabelFs (Join [''hwmon'', ''hwmon0''] (''temp'' @ ''4'' @ ''_type'')) = Inr ''Tdie''"
    by (simp add: Join_def exLabelFs_def readFirstLine_def scanFirst_def
        newline_def maxScanTokenSize_def dropCR_def TrimSpace_def isSpace_def)
  have l5: "readFirstLine exLabelFs (Join [''hwmon'', ''hwmon0''] (''temp'' @ ''5'' @ ''_label'')) = Inl ENOENT"
    by (simp add: Join_def exLabelFs_def readFirstLine_def)
  have t5: "readFirstLine exLabelFs (Join [''hwmon'', ''hwmon0''] (''temp'' @ ''5'' @ ''_type'')) = Inl ENOENT"
    by (simp add: Join_def exLabelFs_def readFirstLine_def)
  have i3: "tempIndex ''temp3_input'' = Some ''3''"
    by (simp add: tempIndex_def HasPrefix_def HasSuffix_def TrimPrefix_def TrimSuffix_def)
  note m3 = C3_label_precedence [where fs = exFs and chipDir = "[''hwmon'', ''hwmon0'']"
      and idx = "''3''" and F = exF and chipName = "''k10temp''"]
  note m4 = C3_label_precedence [where fs = exLabelFs and chipDir = "[''hwmon'', ''hwmon0'']"
      and idx = "''4''" and F = exF and chipName = "''k10temp''"]
  note m5 = C3_label_precedence [where fs = exLabelFs and chipDir = "[''hwmon'', ''hwmon0'']"
      and idx = "''5''" and F = exF and chipName = "''k10temp''"]
  have r3: "fst (resolveLabel exFs [''hwmon'', ''hwmon0''] ''3'') = ''Tctl''"
    using m3 l3 by blast
  have s3: "resolveLabel exFs [''hwmon'', ''hwmon0''] ''3'' = (''Tctl'', [[''hwmon'', ''hwmon0'', ''temp3_label'']])"
    using l3 by (simp add: resolveLabel_def Join_def)
  have r4: "fst (resolveLabel exLabelFs [''hwmon'', ''hwmon0''] ''4'') = ''Tdie''"
    using m4 l4 t4 by blast
  have r5: "fst (resolveLabel exLabelFs [''hwmon'', ''hwmon0''] ''5'') = []"
    using m5 l5 t5 by blast
  have f3: "map label (fileSensor exF exFs [''hwmon'', ''hwmon0''] ''k10temp'' ''temp3_input'') = [''Tctl'']"
    using m3 i3 r3 by simp
  show ?thesis using l3 s3 l4 t4 r4 t5 r5 i3 f3 by simp
qed

subsection \<open>Sensor names and series of the hwmon backend\<close>

lemma fileSensor_name: "d \<in> set (fileSensor F fs chipDir chipName fname) \<Longrightarrow> name d = chip d"
  by (auto simp: fileSensor_def split: option.splits)

lemma chipSensors_name: "d \<in> set (chipSensors F fs base e) \<Longrightarrow> name d = chip d"
  by (auto simp: chipSensors_def Let_def split: if_splits sum.splits dest: fileSensor_name)

lemma discoverSensors_name:
  "discoverSensors F fs base = Inr ds \<Longrightarrow> d \<in> set ds \<Longrightarrow> name d = chip d"
  by (auto simp: discoverSensors_def split: sum.splits dest: chipSensors_name)

text \<open>
  C2, as stated, fails: \<^verbatim>\<open>temp1_input\<close> and \<^verbatim>\<open>temp2_input\<close> of one chip, both read, have
  no label file; their descriptors have the same key, and the merged output of the
  scrape, which completes, holds one series for the two (besides the thermal zone's).
\<close>

theorem C2_counterexample:
  "discoverSensors exF (fsys exEnv) (basePath exC) = Inr [exD1, exD2, exD3]
   \<and> path exD1 = [''hwmon'', ''hwmon0'', ''temp1_input'']
   \<and> path exD2 = [''hwmon'', ''hwmon0'', ''temp2_input'']
   \<and> readTemp exF (fsys exEnv) exD1 = Some (317 / 8)
   \<and> readTemp exF (fsys exEnv) exD2 = Some 41
   \<and> sensorKey exD1 = sensorKey exD2
   \<and> panicked (Collect exF exC exEnv initState) = None
   \<and> dom (sensors (Collect exF exC exEnv initState)) =
       {(''k10temp'', ''k10temp'', []), (''thermal'', ''acpitz'', ''thermal_zone0'')}"
proof -
  have a: "discoverSensors exF (fsys exEnv) (basePath exC) = Inr [exD1, exD2, exD3]"
    by (simp add: exEnv_def exC_def ex_hwmon)
  have b: "path exD1 = [''hwmon'', ''hwmon0'', ''temp1_input'']"
    "path exD2 = [''hwmon'', ''hwmon0'', ''temp2_input'']"
    by (simp_all add: exD1_def exD2_def)
  have c: "readTemp exF (fsys exEnv) exD1 = Some (317 / 8)"
    "readTemp exF (fsys exEnv) exD2 = Some 41"
    by (simp_all add: exEnv_def ex_readTemp)
  have d: "sensorKey exD1 = sensorKey exD2" by (simp add: ex_keys)
  have al: "panicked (Collect exF exC exEnv initState) = None"
    by (simp add: ex_completes initState_def)
  have e: "dom (sensors (Collect exF exC exEnv initState)) =
       {(''k10temp'', ''k10temp'', []), (''thermal'', ''acpitz'', ''thermal_zone0'')}"
    by (auto simp: ex_published)
  show ?thesis using a b c d al e by simp
qed

text \<open>
  C2 (amended): every descriptor the hwmon discoverer emits has its sensor name equal to
  its chip label; two of them have the same series key exactly when chip and resolved
  label agree, the file path playing no part; so, in a scrape that completes, two inputs
  that are both read and whose resolved labels differ are two distinct series of the
  merged output.
\<close>

theorem C2_hwmon_series:
  assumes "discoverSensors F (fsys e) (basePath c) = Inr ds"
  shows "(\<forall>d \<in> set ds. name d = chip d)
         \<and> (\<forall>d \<in> set ds. \<forall>d' \<in> set ds.
               sensorKey d = sensorKey d' \<longleftrightarrow> chip d = chip d' \<and> label d = label d')
         \<and> (enableHwmon c \<and> panicked (Collect F c e st) = None \<longrightarrow>
              (\<forall>d \<in> set ds. \<forall>d' \<in> set ds.
                 readTemp F (fsys e) d \<noteq> None \<and> readTemp F (fsys e) d' \<noteq> None
                 \<and> label d \<noteq> label d'
                 \<longrightarrow> sensorKey d \<noteq> sensorKey d'
                     \<and> sensorKey d \<in> dom (sensors (Collect F c e st))
                     \<and> sensorKey d' \<in> dom (sensors (Collect F c e st))))"
proof (intro conjI ballI impI)
  fix d assume "d \<in> set ds"
  then show "name d = chip d" using assms by (rule discoverSensors_name [rotated])
next
  fix d d' assume "d \<in> set ds" "d' \<in> set ds"
  then have "name d = chip d" "name d' = chip d'"
    using assms by (auto dest: discoverSensors_name)
  then show "sensorKey d = sensorKey d' \<longleftrightarrow> chip d = chip d' \<and> label d = label d'"
    by (auto simp: sensorKey_def)
next
  fix d d'
  assume en': "enableHwmon c \<and> panicked (Collect F c e st) = None"
    and d: "d \<in> set ds" and d': "d' \<in> set ds"
    and r: "readTemp F (fsys e) d \<noteq> None \<and> readTemp F (fsys e) d' \<noteq> None \<and> label d \<noteq> label d'"
  from en' have en: "enableHwmon c" and al: "panicked (Collect F c e st) = None" by simp_all
  show "sensorKey d \<noteq> sensorKey d'" using r by (auto simp: sensorKey_def)
  have "set ds \<subseteq> set (collected F c (fsys e))"
    using en assms by (simp add: collected_def hwmonPart_def)
  then have "sensorKey d \<in> observedKeys F c e" "sensorKey d' \<in> observedKeys F c e"
    using d d' r by (auto simp: observedKeys_def)
  then show "sensorKey d \<in> dom (sensors (Collect F c e st))"
    "sensorKey d' \<in> dom (sensors (Collect F c e st))"
    by (simp_all add: Collect_dom [OF al])
qed

text \<open>Witness for C2: two inputs of one chip labelled \<^verbatim>\<open>Tctl\<close> and \<^verbatim>\<open>Tdie\<close>.\<close>

theorem C2_hwmon_series_witness:
  "discoverSensors exF (fsys exEnvLabelled) (basePath exC) = Inr [exL1, exL2]
   \<and> enableHwmon exC
   \<and> panicked (Collect exF exC exEnvLabelled initState) = None
   \<and> readTemp exF (fsys exEnvLabelled) exL1 \<noteq> None
   \<and> readTemp exF (fsys exEnvLabelled) exL2 \<noteq> None
   \<and> label exL1 \<noteq> label exL2
   \<and> name exL1 = chip exL1
   \<and> sensorKey exL1 \<noteq> sensorKey exL2
   \<and> sensorKey exL1 \<in> dom (sensors (Collect exF exC exEnvLabelled initState))
   \<and> sensorKey exL2 \<in> dom (sensors (Collect exF exC exEnvLabelled initState))"
proof -
  have ds: "discoverSensors exF (fsys exEnvLabelled) (basePath exC) = Inr [exL1, exL2]"
    by (simp add: exEnvLabelled_def exC_def eval_defs exLabelled_def exF_def exL1_def exL2_def)
  have en: "enableHwmon exC" by (simp add: exC_def)
  have r1: "readTemp exF (fsys exEnvLabelled) exL1 \<noteq> None"
    by (simp add: readTemp_def exEnvLabelled_def eval_defs exLabelled_def exF_def exL1_def)
  have r2: "readTemp exF (fsys exEnvLabelled) exL2 \<noteq> None"
    by (simp add: readTemp_def exEnvLabelled_def eval_defs exLabelled_def exF_def exL2_def)
  have lb: "label exL1 \<noteq> label exL2" by (simp add: exL1_def exL2_def)
  have fs: "fsys exEnvLabelled = exLabelled" by (simp add: exEnvLabelled_def)
  have th: "discoverThermalSensors exF exLabelled [''thermal''] = Inl ENOENT"
    by (simp add: discoverThermalSensors_def exLabelled_def)
  have col: "collected exF exC (fsys exEnvLabelled) = [exL1, exL2]"
    using ds by (simp add: fs collected_def hwmonPart_def thermalPart_def exC_def th)
  have vals: "readTemp exF (fsys exEnvLabelled) exL1 = Some (317 / 8)"
    "readTemp exF (fsys exEnvLabelled) exL2 = Some 41"
    by (simp_all add: readTemp_def exEnvLabelled_def eval_defs exLabelled_def exF_def
          exL1_def exL2_def)
  have keys: "sensorKey exL1 = (''k10temp'', ''k10temp'', ''Tctl'')"
    "sensorKey exL2 = (''k10temp'', ''k10temp'', ''Tdie'')"
    by (simp_all add: sensorKey_def exL1_def exL2_def)
  have loop: "fst (setSensors exF (fsys exEnvLabelled) (collected exF exC (fsys exEnvLabelled))
                Map.empty) = None"
    unfolding col by (simp add: vals keys ex_valid)
  have cli: "cliReadings exC (sensorsOut exEnvLabelled) = []"
    by (simp add: exEnvLabelled_def ex_cli_fail)
  have al: "panicked (Collect exF exC exEnvLabelled initState) = None"
    by (simp add: Collect_panicked loop cli initState_def)
  note main = C2_hwmon_series [OF ds, where st = initState]
  have nm: "name exL1 = chip exL1" using main by simp
  have "\<forall>d \<in> set [exL1, exL2]. \<forall>d' \<in> set [exL1, exL2].
                 readTemp exF (fsys exEnvLabelled) d \<noteq> None \<and> readTemp exF (fsys exEnvLabelled) d' \<noteq> None
                 \<and> label d \<noteq> label d'
                 \<longrightarrow> sensorKey d \<noteq> sensorKey d'
                     \<and> sensorKey d \<in> dom (sensors (Collect exF exC exEnvLabelled initState))
                     \<and> sensorKey d' \<in> dom (sensors (Collect exF exC exEnvLabelled initState))"
    using main en al by blast
  then have pub: "sensorKey exL1 \<noteq> sensorKey exL2
     \<and> sensorKey exL1 \<in> dom (sensors (Collect exF exC exEnvLabelled initState))
     \<and> sensorKey exL2 \<in> dom (sensors (Collect exF exC exEnvLabelled initState))"
    using r1 r2 lb by simp
  show ?thesis using ds en al r1 r2 lb nm pub by simp
qed

end
